theory Spec2Isabelle
  imports Complex_Main "HOL-Library.AList"
begin

section \<open>JavaScript values\<close>

text \<open>
  The handlers of \<^verbatim>\<open>index.js\<close> work on whatever \<^verbatim>\<open>express.json()\<close> parsed from the request
  body, so the payload fields are arbitrary JSON values and the checks of the code are
  JavaScript's truthiness, \<^verbatim>\<open>===\<close> and \<^verbatim>\<open>Number(...)\<close>.

  Numbers: a finite number is the rational it denotes, next to \<^verbatim>\<open>NaN\<close> and the two
  infinities (\<^verbatim>\<open>1e999\<close> in a JSON body is \<^verbatim>\<open>Infinity\<close>). Rounding to binary64 is not
  part of the model and \<^verbatim>\<open>-0\<close> is \<^verbatim>\<open>0\<close>: the code only compares numbers with 0,
  asks whether they are integers, and slices with them.
\<close>

datatype jsnum = NaN | NegInf | Fin rat | PosInf

datatype jsval =
    JUndefined
  | JNull
  | JBool bool
  | JNum jsnum
  | JStr string
  | JArr "jsval list"
  | JObj "(string \<times> jsval) list"

text \<open>\<^verbatim>\<open>!v\<close> is \<open>\<not> truthy v\<close>.\<close>

fun truthy :: "jsval \<Rightarrow> bool" where
  "truthy JUndefined = False"
| "truthy JNull = False"
| "truthy (JBool b) = b"
| "truthy (JNum n) = (n \<noteq> NaN \<and> n \<noteq> Fin 0)"
| "truthy (JStr s) = (s \<noteq> [])"
| "truthy (JArr xs) = True"
| "truthy (JObj kvs) = True"

fun typeof :: "jsval \<Rightarrow> string" where
  "typeof JUndefined = ''undefined''"
| "typeof JNull = ''object''"
| "typeof (JBool b) = ''boolean''"
| "typeof (JNum n) = ''number''"
| "typeof (JStr s) = ''string''"
| "typeof (JArr xs) = ''object''"
| "typeof (JObj kvs) = ''object''"

text \<open>
  \<^verbatim>\<open>a === b\<close>. Arrays and objects are compared by reference; every \<^verbatim>\<open>===\<close> of the
  handlers has a value of the current request (or a string literal) on one side and a
  stored value on the other, which are never the same reference.
\<close>

fun strict_eq :: "jsval \<Rightarrow> jsval \<Rightarrow> bool" where
  "strict_eq JUndefined JUndefined = True"
| "strict_eq JNull JNull = True"
| "strict_eq (JBool a) (JBool b) = (a = b)"
| "strict_eq (JNum a) (JNum b) = (a \<noteq> NaN \<and> a = b)"
| "strict_eq (JStr a) (JStr b) = (a = b)"
| "strict_eq _ _ = False"

text \<open>\<^verbatim>\<open>a > b\<close> and \<^verbatim>\<open>a >= b\<close> on numbers: false as soon as one side is \<^verbatim>\<open>NaN\<close>.\<close>

fun num_gt :: "jsnum \<Rightarrow> jsnum \<Rightarrow> bool" where
  "num_gt NaN _ = False"
| "num_gt _ NaN = False"
| "num_gt NegInf _ = False"
| "num_gt _ PosInf = False"
| "num_gt PosInf _ = True"
| "num_gt (Fin a) NegInf = True"
| "num_gt (Fin a) (Fin b) = (b < a)"

definition num_ge :: "jsnum \<Rightarrow> jsnum \<Rightarrow> bool" where
  "num_ge a b = (a \<noteq> NaN \<and> b \<noteq> NaN \<and> (a = b \<or> num_gt a b))"

text \<open>\<^verbatim>\<open>Number.isInteger\<close>.\<close>

fun isInteger :: "jsnum \<Rightarrow> bool" where
  "isInteger (Fin r) = (of_int \<lfloor>r\<rfloor> = r)"
| "isInteger _ = False"

text \<open>
  \<^verbatim>\<open>Number(v)\<close> first converts an object or an array to a primitive value. For a value
  parsed from JSON no property is a function, so: on an object, the inherited
  \<^verbatim>\<open>valueOf\<close> returns the object itself and \<^verbatim>\<open>toString\<close> is tried next; an own
  property \<^verbatim>\<open>toString\<close> is not callable and the conversion throws a TypeError, otherwise
  the inherited one gives \<^verbatim>\<open>"[object Object]"\<close>. An array joins the strings of its
  elements, so it throws when the string of an element does, which for an object is again
  when it has an own \<^verbatim>\<open>toString\<close>.
\<close>

fun throws_to_primitive :: "jsval \<Rightarrow> bool" where
  "throws_to_primitive (JObj kvs) = (map_of kvs ''toString'' \<noteq> None)"
| "throws_to_primitive (JArr xs) = list_ex throws_to_primitive xs"
| "throws_to_primitive _ = False"

text \<open>
  The number \<^verbatim>\<open>Number(v)\<close> returns when it does not throw. The conversion of a string
  (ECMAScript's StringToNumber) belongs to the runtime and is the parameter \<open>s2n\<close>:
  nothing proved below depends on how it reads a string. An array converts through its
  string: the empty array and \<^verbatim>\<open>[null]\<close> give the empty string, which reads as 0; a
  one-element array reads as its element's string, and \<^verbatim>\<open>Number(String(n)) = n\<close> for a
  number; two or more elements give a string with a comma, and \<^verbatim>\<open>"true"\<close>,
  \<^verbatim>\<open>"false"\<close> and \<^verbatim>\<open>"[object Object]"\<close> are no numeric literals.
\<close>

fun ToNumber :: "(string \<Rightarrow> jsnum) \<Rightarrow> jsval \<Rightarrow> jsnum" where
  "ToNumber s2n JUndefined = NaN"
| "ToNumber s2n JNull = Fin 0"
| "ToNumber s2n (JBool b) = Fin (if b then 1 else 0)"
| "ToNumber s2n (JNum n) = n"
| "ToNumber s2n (JStr s) = s2n s"
| "ToNumber s2n (JObj kvs) = NaN"
| "ToNumber s2n (JArr []) = Fin 0"
| "ToNumber s2n (JArr [JUndefined]) = Fin 0"
| "ToNumber s2n (JArr [JNull]) = Fin 0"
| "ToNumber s2n (JArr [JBool b]) = NaN"
| "ToNumber s2n (JArr [JNum n]) = n"
| "ToNumber s2n (JArr [JStr s]) = s2n s"
| "ToNumber s2n (JArr [JObj kvs]) = NaN"
| "ToNumber s2n (JArr [JArr ys]) = ToNumber s2n (JArr ys)"
| "ToNumber s2n (JArr (x # y # zs)) = NaN"

subsection \<open>Properties of objects\<close>

text \<open>The decimal digits of a natural number, as in the index keys of an array.\<close>

fun string_of_nat :: "nat \<Rightarrow> string" where
  "string_of_nat n =
     (if n < 10 then [''0123456789'' ! n]
      else string_of_nat (n div 10) @ [''0123456789'' ! (n mod 10)])"

text \<open>
  The own enumerable properties that an object spread \<^verbatim>\<open>{...v}\<close> copies: the entries of
  an object, the indexed elements of an array or a string, nothing of the other values.
\<close>

fun own_props :: "jsval \<Rightarrow> (string \<times> jsval) list" where
  "own_props (JObj kvs) = kvs"
| "own_props (JArr xs) = zip (map string_of_nat [0..<length xs]) xs"
| "own_props (JStr s) = zip (map string_of_nat [0..<length s]) (map (\<lambda>c. JStr [c]) s)"
| "own_props _ = []"

text \<open>
  \<^verbatim>\<open>v.k\<close> and \<^verbatim>\<open>v?.k\<close> for the property names the handlers read (name, sku, price,
  stock, category, id, username, password, secret, role): none of them is inherited from a
  prototype, so a value that has no such own property gives \<^verbatim>\<open>undefined\<close>. Where the
  code reads a property of a value that may be \<^verbatim>\<open>null\<close> or \<^verbatim>\<open>undefined\<close> without
  \<^verbatim>\<open>?.\<close>, the TypeError is written out at that place.
\<close>

definition get_field :: "jsval \<Rightarrow> string \<Rightarrow> jsval" where
  "get_field v k = (case map_of (own_props v) k of None \<Rightarrow> JUndefined | Some x \<Rightarrow> x)"

text \<open>
  \<^verbatim>\<open>{ ...a, ...b }\<close>: the properties of \<open>a\<close>, overridden and extended by those of \<open>b\<close>.
  The order in which new keys are appended is not tracked.
\<close>

definition spread :: "jsval \<Rightarrow> jsval \<Rightarrow> jsval" where
  "spread a b = JObj (AList.merge (own_props a) (own_props b))"

section \<open>Errors and responses\<close>

text \<open>
  \<^verbatim>\<open>ErrorWeb(message, statusCode, details = {})\<close> of \<^verbatim>\<open>ErrorWeb.js\<close>, and any other
  thrown \<^verbatim>\<open>Error\<close> (a TypeError, an error of a library), which has a message and no
  \<^verbatim>\<open>statusCode\<close>. The two Spanish messages are written without their accent.
\<close>

datatype thrown =
    ErrorWeb string nat jsval
  | OtherError string

text \<open>\<^verbatim>\<open>Number(v)\<close> as the handlers call it: the number, or the TypeError.\<close>

definition js_Number :: "(string \<Rightarrow> jsnum) \<Rightarrow> jsval \<Rightarrow> thrown + jsnum" where
  "js_Number s2n v =
     (if throws_to_primitive v then Inl (OtherError ''Cannot convert object to primitive value'')
      else Inr (ToNumber s2n v))"

text \<open>
  The envelopes built by \<^verbatim>\<open>ok(req, data, meta = {})\<close> and
  \<^verbatim>\<open>fail(req, status, code, message, details = [])\<close>. Their \<^verbatim>\<open>timestamp\<close> and
  \<^verbatim>\<open>path\<close> fields (the clock and the URL) are left out.
\<close>

datatype envelope =
    Success jsval jsval
  | Failure nat string string jsval
  | NoBody

record response =
  status :: nat
  json :: envelope

definition ok :: "jsval \<Rightarrow> jsval \<Rightarrow> envelope" where
  "ok data meta = Success data meta"

definition fail :: "nat \<Rightarrow> string \<Rightarrow> string \<Rightarrow> jsval \<Rightarrow> envelope" where
  "fail st code message details = Failure st code message details"

text \<open>
  The error-handling middleware of \<^verbatim>\<open>part_003\<close> and \<^verbatim>\<open>part_002\<close>:
  \<^verbatim>\<open>status = err?.statusCode || 500\<close>, \<^verbatim>\<open>message = err?.message || 'Internal Server Error'\<close>,
  \<^verbatim>\<open>details = err?.details || undefined\<close> (and \<^verbatim>\<open>fail\<close> defaults an undefined
  \<^verbatim>\<open>details\<close> to \<^verbatim>\<open>[]\<close>).
\<close>

fun error_handler :: "thrown \<Rightarrow> response" where
  "error_handler (ErrorWeb message statusCode details) =
     (let st = (if statusCode = 0 then 500 else statusCode);
          msg = (if message = [] then ''Internal Server Error'' else message);
          det = (if truthy details then details else JArr [])
      in \<lparr>status = st, json = fail st ''ERROR'' msg det\<rparr>)"
| "error_handler (OtherError message) =
     (let msg = (if message = [] then ''Internal Server Error'' else message)
      in \<lparr>status = 500, json = fail 500 ''ERROR'' msg (JArr [])\<rparr>)"

section \<open>Product validation\<close>

type_synonym field_error = "string \<times> string"

definition details_of :: "field_error list \<Rightarrow> jsval" where
  "details_of errors = JArr (map (\<lambda>(f, m). JObj [(''field'', JStr f), (''msg'', JStr m)]) errors)"

text \<open>
  \<^verbatim>\<open>validateProduct(payload)\<close>. Each \<^verbatim>\<open>if\<close> of the source pushes independently of the
  others. On \<^verbatim>\<open>null\<close> or \<^verbatim>\<open>undefined\<close> the source pushes the body error and then
  throws at \<^verbatim>\<open>payload.name\<close>; it also throws, with the errors pushed so far lost, when
  \<^verbatim>\<open>Number(payload.price)\<close> or \<^verbatim>\<open>Number(payload.stock)\<close> does.
\<close>

definition validateProduct :: "(string \<Rightarrow> jsnum) \<Rightarrow> jsval \<Rightarrow> thrown + field_error list" where
  "validateProduct s2n payload =
     (if payload = JNull \<or> payload = JUndefined
      then Inl (OtherError ''Cannot read properties of null or undefined'')
      else
        case js_Number s2n (get_field payload ''price'') of
          Inl err \<Rightarrow> Inl err
        | Inr price \<Rightarrow>
            (case js_Number s2n (get_field payload ''stock'') of
               Inl err \<Rightarrow> Inl err
             | Inr stock \<Rightarrow> Inr (
                 (if \<not> truthy payload \<or> typeof payload \<noteq> ''object''
                  then [(''body'', ''Invalid body'')] else [])
                 @ (if \<not> truthy (get_field payload ''name'') then [(''name'', ''Required'')] else [])
                 @ (if \<not> truthy (get_field payload ''sku'') then [(''sku'', ''Required'')] else [])
                 @ (if \<not> num_gt price (Fin 0) then [(''price'', ''Must be > 0'')] else [])
                 @ (if \<not> (isInteger stock \<and> num_ge stock (Fin 0))
                    then [(''stock'', ''Must be integer >= 0'')] else [])
                 @ (if \<not> truthy (get_field payload ''category'')
                    then [(''category'', ''Required'')] else []))))"

text \<open>The two refusals of a candidate product.\<close>

definition unprocessable :: "field_error list \<Rightarrow> response" where
  "unprocessable errors =
     \<lparr>status = 422,
      json = fail 422 ''UNPROCESSABLE_ENTITY'' ''Invalid data'' (details_of errors)\<rparr>"

definition conflict :: response where
  "conflict = \<lparr>status = 409, json = fail 409 ''CONFLICT'' ''SKU already exists'' (JArr [])\<rparr>"

section \<open>Requests\<close>

text \<open>
  What the middlewares and handlers read of a request: the two headers, the route
  parameter \<^verbatim>\<open>:id\<close>, the query parameters \<^verbatim>\<open>page\<close> and \<^verbatim>\<open>limit\<close> (each absent or a
  string), the parsed body and \<^verbatim>\<open>req.user\<close>, which \<^verbatim>\<open>authJWT\<close> sets. The body that
  \<^verbatim>\<open>express.json()\<close> hands over is an object or an array, or nothing (\<^verbatim>\<open>undefined\<close>).
\<close>

record request =
  x_api_key :: "string option"
  authorization :: "string option"
  param_id :: string
  query_page :: "string option"
  query_limit :: "string option"
  body :: jsval
  user :: jsval

section \<open>The product handlers of part_003\<close>

text \<open>
  The store is the array \<^verbatim>\<open>products\<close>, a list of objects. \<^verbatim>\<open>uuid()\<close> is the
  parameter \<open>new_id\<close>. A handler returns the response and the array after it.
\<close>

text \<open>\<^verbatim>\<open>req.body || {}\<close>.\<close>

definition body_or_empty :: "request \<Rightarrow> jsval" where
  "body_or_empty req = (if truthy (body req) then body req else JObj [])"

definition sku_exists :: "jsval list \<Rightarrow> jsval \<Rightarrow> bool" where
  "sku_exists products v = list_ex (\<lambda>p. strict_eq (get_field p ''sku'') v) products"

text \<open>
  The object literal of the create handler. It is built after validation has passed, so
  \<^verbatim>\<open>Number(b.price)\<close> and \<^verbatim>\<open>Number(b.stock)\<close> have already been evaluated without a
  TypeError and return the same numbers again; the same holds for the two conversions at the
  end of the update handlers.
\<close>

definition new_entity :: "(string \<Rightarrow> jsnum) \<Rightarrow> string \<Rightarrow> jsval \<Rightarrow> jsval" where
  "new_entity s2n new_id b =
     JObj [(''id'', JStr new_id),
           (''name'', get_field b ''name''),
           (''sku'', get_field b ''sku''),
           (''price'', JNum (ToNumber s2n (get_field b ''price''))),
           (''stock'', JNum (ToNumber s2n (get_field b ''stock''))),
           (''category'', get_field b ''category'')]"

text \<open>\<^verbatim>\<open>app.post('/products', ...)\<close>, the handler after the two gates.\<close>

definition post_products ::
  "(string \<Rightarrow> jsnum) \<Rightarrow> string \<Rightarrow> request \<Rightarrow> jsval list \<Rightarrow> response \<times> jsval list" where
  "post_products s2n new_id req products =
     (let b = body_or_empty req in
      case validateProduct s2n b of
        Inl err \<Rightarrow> (error_handler err, products)
      | Inr errors \<Rightarrow>
          if errors \<noteq> []
          then (unprocessable errors, products)
          else if sku_exists products (get_field b ''sku'')
          then (conflict, products)
          else (\<lparr>status = 201, json = ok (new_entity s2n new_id b) (JObj [])\<rparr>,
                products @ [new_entity s2n new_id b]))"

definition not_found :: response where
  "not_found = \<lparr>status = 404, json = fail 404 ''NOT_FOUND'' ''Product not found'' (JArr [])\<rparr>"

text \<open>\<^verbatim>\<open>xs.findIndex(P)\<close>, with \<open>None\<close> for \<^verbatim>\<open>-1\<close>.\<close>

fun findIndex :: "('a \<Rightarrow> bool) \<Rightarrow> 'a list \<Rightarrow> nat option" where
  "findIndex P [] = None"
| "findIndex P (x # xs) = (if P x then Some 0 else map_option Suc (findIndex P xs))"

definition has_id :: "string \<Rightarrow> jsval \<Rightarrow> bool" where
  "has_id i p = strict_eq (get_field p ''id'') (JStr i)"

text \<open>
  \<^verbatim>\<open>app.put('/products/:id', ...)\<close> of \<^verbatim>\<open>part_003\<close>: the stored record is the old one
  overridden by the five fields of the merged candidate.
\<close>

definition put_products_id ::
  "(string \<Rightarrow> jsnum) \<Rightarrow> request \<Rightarrow> jsval list \<Rightarrow> response \<times> jsval list" where
  "put_products_id s2n req products =
     (case findIndex (has_id (param_id req)) products of
        None \<Rightarrow> (not_found, products)
      | Some idx \<Rightarrow>
          (let merged = spread (products ! idx) (body req) in
           case validateProduct s2n merged of
             Inl err \<Rightarrow> (error_handler err, products)
           | Inr errors \<Rightarrow>
               if errors \<noteq> []
               then (unprocessable errors, products)
               else if truthy (get_field (body req) ''sku'')
                     \<and> \<not> strict_eq (get_field (body req) ''sku'') (get_field (products ! idx) ''sku'')
                     \<and> sku_exists products (get_field (body req) ''sku'')
               then (conflict, products)
               else
                 (let updated = spread (products ! idx)
                        (JObj [(''name'', get_field merged ''name''),
                               (''sku'', get_field merged ''sku''),
                               (''price'', JNum (ToNumber s2n (get_field merged ''price''))),
                               (''stock'', JNum (ToNumber s2n (get_field merged ''stock''))),
                               (''category'', get_field merged ''category'')])
                  in (\<lparr>status = 200, json = ok updated (JObj [])\<rparr>, products[idx := updated]))))"

text \<open>\<^verbatim>\<open>app.delete('/products/:id', ...)\<close> of \<^verbatim>\<open>part_003\<close>: \<^verbatim>\<open>products.splice(idx, 1)\<close>.\<close>

definition delete_products_id :: "request \<Rightarrow> jsval list \<Rightarrow> response \<times> jsval list" where
  "delete_products_id req products =
     (case findIndex (has_id (param_id req)) products of
        None \<Rightarrow> (not_found, products)
      | Some idx \<Rightarrow> (\<lparr>status = 204, json = NoBody\<rparr>, take idx products @ drop (Suc idx) products))"

text \<open>\<^verbatim>\<open>app.get('/products/:id', ...)\<close>.\<close>

definition get_products_id :: "request \<Rightarrow> jsval list \<Rightarrow> response" where
  "get_products_id req products =
     (case List.find (has_id (param_id req)) products of
        None \<Rightarrow> not_found
      | Some p \<Rightarrow> \<lparr>status = 200, json = ok p (JObj [])\<rparr>)"

section \<open>The handlers of src/index.js that differ\<close>

text \<open>\<^verbatim>\<open>obj.k = v\<close> on an object.\<close>

definition set_field :: "jsval \<Rightarrow> string \<Rightarrow> jsval \<Rightarrow> jsval" where
  "set_field obj k v = JObj (AList.update k v (own_props obj))"

text \<open>
  \<^verbatim>\<open>app.put('/products/:id', ...)\<close> of \<^verbatim>\<open>src/index.js\<close>: the merged object itself, with
  its price and stock converted, replaces the record.
\<close>

definition put_products_id_indexjs ::
  "(string \<Rightarrow> jsnum) \<Rightarrow> request \<Rightarrow> jsval list \<Rightarrow> response \<times> jsval list" where
  "put_products_id_indexjs s2n req products =
     (case findIndex (has_id (param_id req)) products of
        None \<Rightarrow> (not_found, products)
      | Some idx \<Rightarrow>
          (let merged = spread (products ! idx) (body req) in
           case validateProduct s2n merged of
             Inl err \<Rightarrow> (error_handler err, products)
           | Inr errors \<Rightarrow>
               if errors \<noteq> []
               then (unprocessable errors, products)
               else if truthy (get_field (body req) ''sku'')
                     \<and> \<not> strict_eq (get_field (body req) ''sku'') (get_field (products ! idx) ''sku'')
                     \<and> sku_exists products (get_field (body req) ''sku'')
               then (conflict, products)
               else
                 (let merged1 = set_field merged ''price''
                        (JNum (ToNumber s2n (get_field merged ''price'')));
                      merged2 = set_field merged1 ''stock''
                        (JNum (ToNumber s2n (get_field merged1 ''stock'')))
                  in (\<lparr>status = 200, json = ok merged2 (JObj [])\<rparr>, products[idx := merged2]))))"

text \<open>
  \<^verbatim>\<open>app.delete('/products/:id', ...)\<close> of \<^verbatim>\<open>src/index.js\<close>: the array is replaced by
  its filter before the lengths are compared.
\<close>

definition delete_products_id_indexjs :: "request \<Rightarrow> jsval list \<Rightarrow> response \<times> jsval list" where
  "delete_products_id_indexjs req products =
     (let filtered = filter (\<lambda>p. \<not> has_id (param_id req) p) products in
      if length filtered = length products then (not_found, filtered)
      else (\<lparr>status = 204, json = NoBody\<rparr>, filtered))"

section \<open>Listing with pagination\<close>

text \<open>
  Arithmetic of numbers as far as the list handler needs it. A finite result stays the
  exact value (no rounding and no overflow to an infinity); \<^verbatim>\<open>slice\<close> clamps its
  arguments to the length of the array in either case.
\<close>

fun num_neg :: "jsnum \<Rightarrow> jsnum" where
  "num_neg NaN = NaN"
| "num_neg NegInf = PosInf"
| "num_neg PosInf = NegInf"
| "num_neg (Fin a) = Fin (- a)"

fun num_add :: "jsnum \<Rightarrow> jsnum \<Rightarrow> jsnum" where
  "num_add NaN _ = NaN"
| "num_add _ NaN = NaN"
| "num_add PosInf NegInf = NaN"
| "num_add NegInf PosInf = NaN"
| "num_add PosInf _ = PosInf"
| "num_add _ PosInf = PosInf"
| "num_add NegInf _ = NegInf"
| "num_add _ NegInf = NegInf"
| "num_add (Fin a) (Fin b) = Fin (a + b)"

definition num_sub :: "jsnum \<Rightarrow> jsnum \<Rightarrow> jsnum" where
  "num_sub a b = num_add a (num_neg b)"

text \<open>The sign of a number that is not \<^verbatim>\<open>NaN\<close>: -1, 0 or 1.\<close>

fun num_sign :: "jsnum \<Rightarrow> int" where
  "num_sign NaN = 0"
| "num_sign NegInf = - 1"
| "num_sign PosInf = 1"
| "num_sign (Fin a) = (if a < 0 then - 1 else if a = 0 then 0 else 1)"

fun num_mul :: "jsnum \<Rightarrow> jsnum \<Rightarrow> jsnum" where
  "num_mul NaN _ = NaN"
| "num_mul _ NaN = NaN"
| "num_mul (Fin a) (Fin b) = Fin (a * b)"
| "num_mul a b =
     (if num_sign a * num_sign b = 0 then NaN
      else if num_sign a * num_sign b < 0 then NegInf else PosInf)"

text \<open>\<^verbatim>\<open>Math.max(a, b)\<close>: \<^verbatim>\<open>NaN\<close> as soon as one argument is.\<close>

definition math_max :: "jsnum \<Rightarrow> jsnum \<Rightarrow> jsnum" where
  "math_max a b = (if a = NaN \<or> b = NaN then NaN else if num_gt b a then b else a)"

text \<open>
  \<^verbatim>\<open>parseInt(s, 10)\<close>: leading white space is skipped, then an optional sign, then the
  longest prefix of decimal digits; \<^verbatim>\<open>NaN\<close> when that prefix is empty. A value that rounds
  beyond the largest binary64 number is an infinity. A string is the list of its code
  units and a \<^typ>\<open>char\<close> is a code unit below 256: \<open>is_ws\<close> holds of the white space and
  line terminators of ECMAScript in that range (tab, line feed, vertical tab, form feed,
  carriage return, space and the no-break space U+00A0). The white space above it
  (U+1680, U+2000 to U+200A, U+2028, U+2029, U+202F, U+205F, U+3000 and U+FEFF) has no
  \<^typ>\<open>char\<close>, so a query string that starts with one of those is outside the model.
\<close>

definition is_ws :: "char \<Rightarrow> bool" where
  "is_ws c = (c \<in> set [CHR '' '', CHR 0x09, CHR 0x0A, CHR 0x0B, CHR 0x0C, CHR 0x0D, CHR 0xA0])"

definition is_digit :: "char \<Rightarrow> bool" where
  "is_digit c = (48 \<le> (of_char c :: int) \<and> (of_char c :: int) \<le> 57)"

definition digits_value :: "string \<Rightarrow> int" where
  "digits_value ds = foldl (\<lambda>a c. 10 * a + (of_char c - 48)) 0 ds"

definition parseInt10 :: "string \<Rightarrow> jsnum" where
  "parseInt10 s =
     (let s1 = dropWhile is_ws s;
          neg = (case s1 of [] \<Rightarrow> False | c # r \<Rightarrow> c = CHR ''-'');
          s2 = (case s1 of [] \<Rightarrow> [] | c # r \<Rightarrow> if c = CHR ''-'' \<or> c = CHR ''+'' then r else s1);
          ds = takeWhile is_digit s2
      in if ds = [] then NaN
         else if 2 ^ 1024 - 2 ^ 970 \<le> digits_value ds then (if neg then NegInf else PosInf)
         else Fin (if neg then - of_int (digits_value ds) else of_int (digits_value ds)))"

text \<open>
  \<^verbatim>\<open>xs.slice(start, end)\<close>: each argument is truncated to an integer (\<^verbatim>\<open>NaN\<close> to 0), a
  negative one counts from the end, and both are clamped to the range of the array.
\<close>

fun to_index :: "nat \<Rightarrow> jsnum \<Rightarrow> nat" where
  "to_index len NaN = 0"
| "to_index len NegInf = 0"
| "to_index len PosInf = len"
| "to_index len (Fin r) =
     (let i = (if r < 0 then \<lceil>r\<rceil> else \<lfloor>r\<rfloor>)
      in if i < 0 then nat (max (int len + i) 0) else min (nat i) len)"

definition slice :: "'a list \<Rightarrow> jsnum \<Rightarrow> jsnum \<Rightarrow> 'a list" where
  "slice xs start fin =
     (let k = to_index (length xs) start; final = to_index (length xs) fin
      in take (final - k) (drop k xs))"

text \<open>\<^verbatim>\<open>q || dflt\<close> for a query parameter, absent or a string.\<close>

definition query_or :: "string option \<Rightarrow> string \<Rightarrow> string" where
  "query_or q dflt = (case q of None \<Rightarrow> dflt | Some s \<Rightarrow> if s = [] then dflt else s)"

text \<open>\<^verbatim>\<open>app.get('/products', ...)\<close> (the same in the three versions of the file).\<close>

definition list_page :: "request \<Rightarrow> jsnum" where
  "list_page req = math_max (Fin 1) (parseInt10 (query_or (query_page req) ''1''))"

definition list_limit :: "request \<Rightarrow> jsnum" where
  "list_limit req = math_max (Fin 1) (parseInt10 (query_or (query_limit req) ''10''))"

definition list_items :: "request \<Rightarrow> jsval list \<Rightarrow> jsval list" where
  "list_items req products =
     (let page = list_page req; limit = list_limit req;
          offset = num_mul (num_sub page (Fin 1)) limit
      in slice products offset (num_add offset limit))"

definition get_products :: "request \<Rightarrow> jsval list \<Rightarrow> response" where
  "get_products req products =
     \<lparr>status = 200,
      json = ok (JArr (list_items req products))
                (JObj [(''page'', JNum (list_page req)),
                       (''limit'', JNum (list_limit req)),
                       (''total'', JNum (Fin (of_nat (length products))))])\<rparr>"

section \<open>API key and session tokens\<close>

text \<open>The class of \<^verbatim>\<open>APIKeyGenerator.js\<close>; the key is random, fixed when the process starts.\<close>

record APIKeyGenerator =
  apiKey :: string

definition getAPIKey :: "APIKeyGenerator \<Rightarrow> string" where
  "getAPIKey gen = apiKey gen"

text \<open>\<^verbatim>\<open>validateAPIKey(key)\<close>; the header may be absent (\<^verbatim>\<open>undefined\<close>).\<close>

definition validateAPIKey :: "APIKeyGenerator \<Rightarrow> string option \<Rightarrow> thrown + bool" where
  "validateAPIKey gen key =
     (if key = Some (apiKey gen) then Inr True
      else Inl (ErrorWeb ''API Key invalida'' 403 (JObj [])))"

text \<open>
  The library \<^verbatim>\<open>jsonwebtoken\<close> is not code of the repository; its three functions are
  parameters. \<^verbatim>\<open>jwt.verify\<close> reads the clock, so \<open>jwt_verify\<close> stands for the function at
  the instant of the call; it returns the decoded payload or throws one of the three
  errors of the library. \<^verbatim>\<open>jwt.sign\<close> throws on a payload or an option it rejects.
\<close>

datatype jwt_failure = JsonWebTokenError string | TokenExpiredError | NotBeforeError

record jwt_lib =
  jwt_sign :: "jsval \<Rightarrow> string \<Rightarrow> jsval \<Rightarrow> thrown + string"
  jwt_verify :: "string \<Rightarrow> string \<Rightarrow> jsval \<Rightarrow> jwt_failure + jsval"
  jwt_decode :: "string \<Rightarrow> jsval"

text \<open>The class of \<^verbatim>\<open>JWTGenerator.js\<close>.\<close>

record JWTGenerator =
  Secret :: string

definition defaultOptions :: jsval where
  "defaultOptions = JObj [(''expiresIn'', JStr ''1h''), (''issuer'', JStr ''laboratorio8-api'')]"

definition generateToken :: "jwt_lib \<Rightarrow> JWTGenerator \<Rightarrow> jsval \<Rightarrow> jsval \<Rightarrow> thrown + string" where
  "generateToken lib gen payload options =
     jwt_sign lib payload (Secret gen) (spread defaultOptions options)"

definition verifyToken :: "jwt_lib \<Rightarrow> JWTGenerator \<Rightarrow> string \<Rightarrow> jsval \<Rightarrow> thrown + jsval" where
  "verifyToken lib gen token options =
     (case jwt_verify lib token (Secret gen) options of
        Inr claims \<Rightarrow> Inr claims
      | Inl err \<Rightarrow> Inl (ErrorWeb ''Token invalido o expirado'' 401 (JObj [])))"

definition decodeToken :: "jwt_lib \<Rightarrow> string \<Rightarrow> jsval" where
  "decodeToken lib token = jwt_decode lib token"

section \<open>The token library, after the specification\<close>

text \<open>
  Modelled from the spec: the functions \<^verbatim>\<open>jwt.sign\<close>, \<^verbatim>\<open>jwt.verify\<close> and \<^verbatim>\<open>jwt.decode\<close>
  of the library \<^verbatim>\<open>jsonwebtoken\<close>, which \<^verbatim>\<open>JWTGenerator.js\<close> calls and which is not
  among the sources. The specification describes a token as a signed, self-contained
  value that encodes the claims with their issue instant, expiry instant and issuer, and
  is verified by its signature and its expiry against the signing secret. Here a token is
  the text of its claims, a dot, and the signature of that text under the secret. The
  keyed signature, the text encoding of claims and its decoder, and the reading of a time
  span such as \<^verbatim>\<open>2h\<close> are those of the library and stay parameters.
\<close>

record token_codec =
  codec_mac :: "string \<Rightarrow> string \<Rightarrow> string"
  codec_enc :: "jsval \<Rightarrow> string"
  codec_dec :: "string \<Rightarrow> jsval option"
  codec_timespan :: "string \<Rightarrow> nat option"

text \<open>
  Modelled from the spec: the framing of a token, absent from the sources: the text before
  the last dot and the signature after it; a string without a dot is no token.
\<close>

definition split_last_dot :: "string \<Rightarrow> (string \<times> string) option" where
  "split_last_dot token =
     (case dropWhile (\<lambda>ch. ch \<noteq> CHR ''.'') (rev token) of
        [] \<Rightarrow> None
      | d # text_rev \<Rightarrow> Some (rev text_rev, rev (takeWhile (\<lambda>ch. ch \<noteq> CHR ''.'') (rev token))))"

text \<open>
  Modelled from the spec: the registered fields that \<^verbatim>\<open>jwt.sign\<close> (absent from the
  sources) adds to the given claims: issued-at, expiry and issuer, with the instants in
  seconds.
\<close>

definition issued_claims :: "nat \<Rightarrow> nat \<Rightarrow> jsval \<Rightarrow> jsval \<Rightarrow> jsval" where
  "issued_claims now ttl issuer payload =
     spread payload
       (JObj [(''iat'', JNum (Fin (of_nat now))), (''exp'', JNum (Fin (of_nat (now + ttl)))),
              (''iss'', issuer)])"

text \<open>
  Modelled from the spec: \<^verbatim>\<open>jwt.sign\<close> (absent from the sources), issue of the
  specification, at the instant \<open>now\<close>: a signed token whose payload includes the given
  claims plus the registered fields; it throws on an \<^verbatim>\<open>expiresIn\<close> that is no time span.
\<close>

definition spec_sign ::
  "token_codec \<Rightarrow> nat \<Rightarrow> jsval \<Rightarrow> string \<Rightarrow> jsval \<Rightarrow> thrown + string" where
  "spec_sign c now payload secret options =
     (case get_field options ''expiresIn'' of
        JStr e \<Rightarrow>
          (case codec_timespan c e of
             None \<Rightarrow> Inl (OtherError ''expiresIn is not a time span'')
           | Some ttl \<Rightarrow>
               (let text = codec_enc c
                      (issued_claims now ttl (get_field options ''issuer'') payload)
                in Inr (text @ ''.'' @ codec_mac c secret text)))
      | _ \<Rightarrow> Inl (OtherError ''expiresIn is not a time span''))"

text \<open>
  Modelled from the spec: whether the current time is past the expiry that the claims
  encode (part of \<^verbatim>\<open>jwt.verify\<close>, absent from the sources).
\<close>

definition claims_expired :: "nat \<Rightarrow> jsval \<Rightarrow> bool" where
  "claims_expired now claims =
     (case get_field claims ''exp'' of
        JNum n \<Rightarrow> num_gt (Fin (of_nat now)) n
      | _ \<Rightarrow> False)"

text \<open>
  Modelled from the spec: \<^verbatim>\<open>jwt.verify\<close> (absent from the sources), verify of the
  specification, at the instant \<open>now\<close>: it fails when the token is malformed, when the
  signature does not match, or when the current time is past the encoded expiry, and
  returns the claims otherwise.
\<close>

definition spec_verify ::
  "token_codec \<Rightarrow> nat \<Rightarrow> string \<Rightarrow> string \<Rightarrow> jsval \<Rightarrow> jwt_failure + jsval" where
  "spec_verify c now token secret options =
     (case split_last_dot token of
        None \<Rightarrow> Inl (JsonWebTokenError ''jwt malformed'')
      | Some (text, signature) \<Rightarrow>
          (case codec_dec c text of
             None \<Rightarrow> Inl (JsonWebTokenError ''invalid token'')
           | Some claims \<Rightarrow>
               if signature \<noteq> codec_mac c secret text
               then Inl (JsonWebTokenError ''invalid signature'')
               else if claims_expired now claims then Inl TokenExpiredError
               else Inr claims))"

text \<open>
  Modelled from the spec: \<^verbatim>\<open>jwt.decode\<close> (absent from the sources), the non-verifying
  decode of the specification: the claims, or \<^verbatim>\<open>null\<close>.
\<close>

definition spec_decode :: "token_codec \<Rightarrow> string \<Rightarrow> jsval" where
  "spec_decode c token =
     (case split_last_dot token of
        None \<Rightarrow> JNull
      | Some (text, signature) \<Rightarrow>
          (case codec_dec c text of None \<Rightarrow> JNull | Some claims \<Rightarrow> claims))"

text \<open>
  Modelled from the spec: the library \<^verbatim>\<open>jsonwebtoken\<close> (absent from the sources) as the
  process sees it at the instant \<open>now\<close>.
\<close>

definition spec_jwt :: "token_codec \<Rightarrow> nat \<Rightarrow> jwt_lib" where
  "spec_jwt c now =
     \<lparr>jwt_sign = spec_sign c now, jwt_verify = spec_verify c now, jwt_decode = spec_decode c\<rparr>"

section \<open>The access-control middlewares\<close>

text \<open>
  A middleware either calls \<^verbatim>\<open>next()\<close>, passing the request on (\<open>Inr\<close>), or
  \<^verbatim>\<open>next(err)\<close>, which skips everything up to the error handler (\<open>Inl\<close>).
\<close>

type_synonym gate = "request \<Rightarrow> thrown + request"

definition requireApiKey :: "APIKeyGenerator \<Rightarrow> gate" where
  "requireApiKey apiKeyGen req =
     (case validateAPIKey apiKeyGen (x_api_key req) of
        Inl err \<Rightarrow> Inl err
      | Inr _ \<Rightarrow> Inr req)"

definition starts_with :: "string \<Rightarrow> string \<Rightarrow> bool" where
  "starts_with pre s = (take (length pre) s = pre)"

definition authJWT :: "jwt_lib \<Rightarrow> JWTGenerator \<Rightarrow> gate" where
  "authJWT lib jwtGen req =
     (let auth = (case authorization req of None \<Rightarrow> [] | Some a \<Rightarrow> a);
          token = (if starts_with ''Bearer '' auth then Some (drop 7 auth) else None)
      in case token of
           None \<Rightarrow> Inl (ErrorWeb ''Falta token'' 401 (JObj []))
         | Some t \<Rightarrow>
             if t = [] then Inl (ErrorWeb ''Falta token'' 401 (JObj []))
             else (case verifyToken lib jwtGen t JUndefined of
                     Inl err \<Rightarrow> Inl err
                   | Inr claims \<Rightarrow> Inr (req\<lparr>user := claims\<rparr>)))"

text \<open>\<^verbatim>\<open>roles.includes(req.user.role)\<close>, for an allow-list of strings.\<close>

definition roleCheck :: "string list \<Rightarrow> gate" where
  "roleCheck roles req =
     (if \<not> truthy (user req) \<or> get_field (user req) ''role'' \<notin> set (map JStr roles)
      then Inl (ErrorWeb ''Permisos insuficientes'' 403 (JObj []))
      else Inr req)"

text \<open>
  A route \<^verbatim>\<open>app.METHOD(path, gate, ..., handler)\<close>: the gates in the order they are
  written, then the handler; the first \<^verbatim>\<open>next(err)\<close> goes to the error handler.
\<close>

fun run_gates :: "gate list \<Rightarrow> request \<Rightarrow> thrown + request" where
  "run_gates [] req = Inr req"
| "run_gates (g # gs) req = (case g req of Inl err \<Rightarrow> Inl err | Inr req' \<Rightarrow> run_gates gs req')"

definition route ::
  "gate list \<Rightarrow> (request \<Rightarrow> 's \<Rightarrow> response \<times> 's) \<Rightarrow> request \<Rightarrow> 's \<Rightarrow> response \<times> 's" where
  "route gates handler req s =
     (case run_gates gates req of
        Inl err \<Rightarrow> (error_handler err, s)
      | Inr req' \<Rightarrow> handler req' s)"

section \<open>Login\<close>

text \<open>The demo users of \<^verbatim>\<open>part_003\<close> and \<^verbatim>\<open>src/index.js\<close>.\<close>

definition users :: "jsval list" where
  "users =
     [JObj [(''id'', JStr ''u1''), (''username'', JStr ''alice''),
            (''password'', JStr ''alice123''), (''role'', JStr ''admin'')],
      JObj [(''id'', JStr ''u2''), (''username'', JStr ''bob''),
            (''password'', JStr ''bob123''), (''role'', JStr ''editor'')]]"

definition credentials_match :: "jsval \<Rightarrow> jsval \<Rightarrow> jsval \<Rightarrow> bool" where
  "credentials_match username password u =
     (strict_eq (get_field u ''username'') username \<and> strict_eq (get_field u ''password'') password)"

definition token_payload :: "jsval \<Rightarrow> jsval" where
  "token_payload u =
     JObj [(''sub'', get_field u ''id''), (''role'', get_field u ''role''),
           (''username'', get_field u ''username'')]"

text \<open>\<^verbatim>\<open>{ expiresIn: process.env.JWT_EXPIRES || '2h' }\<close>; the variable is \<open>expires\<close>.\<close>

definition login_options :: "string option \<Rightarrow> jsval" where
  "login_options expires =
     JObj [(''expiresIn'', JStr (case expires of None \<Rightarrow> ''2h'' | Some e \<Rightarrow> if e = [] then ''2h'' else e))]"

definition issue_token :: "jwt_lib \<Rightarrow> JWTGenerator \<Rightarrow> string option \<Rightarrow> jsval \<Rightarrow> response" where
  "issue_token lib jwtGen expires u =
     (case generateToken lib jwtGen (token_payload u) (login_options expires) of
        Inl err \<Rightarrow> error_handler err
      | Inr token \<Rightarrow> \<lparr>status = 200, json = ok (JObj [(''token'', JStr token)]) (JObj [])\<rparr>)"

text \<open>
  \<^verbatim>\<open>app.post('/auth/login', ...)\<close> of \<^verbatim>\<open>part_003\<close> and \<^verbatim>\<open>src/index.js\<close>, over a list
  of users.
\<close>

definition post_auth_login ::
  "jwt_lib \<Rightarrow> JWTGenerator \<Rightarrow> string option \<Rightarrow> jsval list \<Rightarrow> request \<Rightarrow> response" where
  "post_auth_login lib jwtGen expires us req =
     (let b = body_or_empty req;
          username = get_field b ''username'';
          password = get_field b ''password''
      in if \<not> truthy username \<or> \<not> truthy password
         then \<lparr>status = 400,
               json = fail 400 ''BAD_REQUEST'' ''username and password required'' (JArr [])\<rparr>
         else (case List.find (credentials_match username password) us of
                 None \<Rightarrow> \<lparr>status = 401,
                           json = fail 401 ''UNAUTHORIZED'' ''Invalid credentials'' (JArr [])\<rparr>
               | Some u \<Rightarrow> issue_token lib jwtGen expires u))"

text \<open>
  The same handler in \<^verbatim>\<open>part_002\<close>, where the users come from \<^verbatim>\<open>users.json\<close> and the
  body must carry a third field.
\<close>

definition post_auth_login_persist ::
  "jwt_lib \<Rightarrow> JWTGenerator \<Rightarrow> string option \<Rightarrow> jsval list \<Rightarrow> request \<Rightarrow> response" where
  "post_auth_login_persist lib jwtGen expires us req =
     (let b = body_or_empty req;
          username = get_field b ''username'';
          password = get_field b ''password'';
          secret = get_field b ''secret''
      in if \<not> truthy username \<or> \<not> truthy password \<or> \<not> truthy secret
         then \<lparr>status = 400,
               json = fail 400 ''BAD_REQUEST'' ''username, password and secret required'' (JArr [])\<rparr>
         else (case List.find (credentials_match username password) us of
                 None \<Rightarrow> \<lparr>status = 401,
                           json = fail 401 ''UNAUTHORIZED'' ''Invalid credentials'' (JArr [])\<rparr>
               | Some u \<Rightarrow> issue_token lib jwtGen expires u))"

section \<open>The routes\<close>

text \<open>
  The process: the two generators, the library, the string-to-number conversion of the
  runtime and the environment variable.
\<close>

record app =
  app_apiKeyGen :: APIKeyGenerator
  app_jwtGen :: JWTGenerator
  app_lib :: jwt_lib
  app_s2n :: "string \<Rightarrow> jsnum"
  app_JWT_EXPIRES :: "string option"

definition route_login :: "app \<Rightarrow> request \<Rightarrow> jsval list \<Rightarrow> response \<times> jsval list" where
  "route_login a =
     route [requireApiKey (app_apiKeyGen a)]
       (\<lambda>req s. (post_auth_login (app_lib a) (app_jwtGen a) (app_JWT_EXPIRES a) users req, s))"

definition route_login_persist ::
  "app \<Rightarrow> jsval list \<Rightarrow> request \<Rightarrow> jsval list \<Rightarrow> response \<times> jsval list" where
  "route_login_persist a us =
     route [requireApiKey (app_apiKeyGen a)]
       (\<lambda>req s. (post_auth_login_persist (app_lib a) (app_jwtGen a) (app_JWT_EXPIRES a) us req, s))"

definition route_list :: "app \<Rightarrow> request \<Rightarrow> jsval list \<Rightarrow> response \<times> jsval list" where
  "route_list a = route [requireApiKey (app_apiKeyGen a)] (\<lambda>req s. (get_products req s, s))"

definition route_detail :: "app \<Rightarrow> request \<Rightarrow> jsval list \<Rightarrow> response \<times> jsval list" where
  "route_detail a = route [requireApiKey (app_apiKeyGen a)] (\<lambda>req s. (get_products_id req s, s))"

definition route_create :: "app \<Rightarrow> string \<Rightarrow> request \<Rightarrow> jsval list \<Rightarrow> response \<times> jsval list" where
  "route_create a new_id =
     route [authJWT (app_lib a) (app_jwtGen a), roleCheck [''editor'', ''admin'']]
       (post_products (app_s2n a) new_id)"

definition route_update :: "app \<Rightarrow> request \<Rightarrow> jsval list \<Rightarrow> response \<times> jsval list" where
  "route_update a =
     route [authJWT (app_lib a) (app_jwtGen a), roleCheck [''editor'', ''admin'']]
       (put_products_id (app_s2n a))"

definition route_delete :: "app \<Rightarrow> request \<Rightarrow> jsval list \<Rightarrow> response \<times> jsval list" where
  "route_delete a =
     route [authJWT (app_lib a) (app_jwtGen a), roleCheck [''admin'']] delete_products_id"

section \<open>The persisting handlers of part_002\<close>

text \<open>
  The state: the array \<^verbatim>\<open>products\<close> in memory and the files written so far. The
  outcome of \<^verbatim>\<open>fs.writeFile\<close> is an input: \<open>None\<close> when the file is written, the message
  of the error otherwise.
\<close>

record pstate =
  in_memory :: "jsval list"
  files :: "string \<Rightarrow> jsval option"

definition saveToJSON :: "string option \<Rightarrow> string \<Rightarrow> jsval \<Rightarrow> pstate \<Rightarrow> thrown + pstate" where
  "saveToJSON write_error filename data st =
     (case write_error of
        None \<Rightarrow> Inr (st\<lparr>files := (files st)(filename \<mapsto> data)\<rparr>)
      | Some message \<Rightarrow> Inl (ErrorWeb (''Error guardando datos: '' @ message) 500 (JObj [])))"

definition saveProducts :: "string option \<Rightarrow> pstate \<Rightarrow> thrown + pstate" where
  "saveProducts write_error st = saveToJSON write_error ''products.json'' (JArr (in_memory st)) st"

text \<open>
  The tail of the three handlers: \<^verbatim>\<open>await saveProducts()\<close> after the mutation, then the
  response, with \<^verbatim>\<open>catch (err) { next(err) }\<close> around both.
\<close>

definition save_then :: "string option \<Rightarrow> response \<Rightarrow> pstate \<Rightarrow> response \<times> pstate" where
  "save_then write_error res st =
     (case saveProducts write_error st of
        Inl err \<Rightarrow> (error_handler err, st)
      | Inr st' \<Rightarrow> (res, st'))"

definition post_products_persist ::
  "(string \<Rightarrow> jsnum) \<Rightarrow> string \<Rightarrow> string option \<Rightarrow> request \<Rightarrow> pstate \<Rightarrow> response \<times> pstate" where
  "post_products_persist s2n new_id write_error req st =
     (let b = body_or_empty req in
      case validateProduct s2n b of
        Inl err \<Rightarrow> (error_handler err, st)
      | Inr errors \<Rightarrow>
          if errors \<noteq> []
          then (unprocessable errors, st)
          else if sku_exists (in_memory st) (get_field b ''sku'')
          then (conflict, st)
          else save_then write_error
                 \<lparr>status = 201, json = ok (new_entity s2n new_id b) (JObj [])\<rparr>
                 (st\<lparr>in_memory := in_memory st @ [new_entity s2n new_id b]\<rparr>))"

definition put_products_id_persist ::
  "(string \<Rightarrow> jsnum) \<Rightarrow> string option \<Rightarrow> request \<Rightarrow> pstate \<Rightarrow> response \<times> pstate" where
  "put_products_id_persist s2n write_error req st =
     (case findIndex (has_id (param_id req)) (in_memory st) of
        None \<Rightarrow> (not_found, st)
      | Some idx \<Rightarrow>
          (let merged = spread (in_memory st ! idx) (body req) in
           case validateProduct s2n merged of
             Inl err \<Rightarrow> (error_handler err, st)
           | Inr errors \<Rightarrow>
               if errors \<noteq> []
               then (unprocessable errors, st)
               else if truthy (get_field (body req) ''sku'')
                     \<and> \<not> strict_eq (get_field (body req) ''sku'') (get_field (in_memory st ! idx) ''sku'')
                     \<and> sku_exists (in_memory st) (get_field (body req) ''sku'')
               then (conflict, st)
               else
                 (let updated = spread (in_memory st ! idx)
                        (JObj [(''name'', get_field merged ''name''),
                               (''sku'', get_field merged ''sku''),
                               (''price'', JNum (ToNumber s2n (get_field merged ''price''))),
                               (''stock'', JNum (ToNumber s2n (get_field merged ''stock''))),
                               (''category'', get_field merged ''category'')])
                  in save_then write_error
                       \<lparr>status = 200, json = ok updated (JObj [])\<rparr>
                       (st\<lparr>in_memory := (in_memory st)[idx := updated]\<rparr>))))"

definition delete_products_id_persist ::
  "string option \<Rightarrow> request \<Rightarrow> pstate \<Rightarrow> response \<times> pstate" where
  "delete_products_id_persist write_error req st =
     (case findIndex (has_id (param_id req)) (in_memory st) of
        None \<Rightarrow> (not_found, st)
      | Some idx \<Rightarrow>
          save_then write_error \<lparr>status = 204, json = NoBody\<rparr>
            (st\<lparr>in_memory := take idx (in_memory st) @ drop (Suc idx) (in_memory st)\<rparr>))"

section \<open>Notions used in the statements\<close>

text \<open>A value that is not an array or an object: \<^verbatim>\<open>===\<close> compares it by value.\<close>

fun is_primitive :: "jsval \<Rightarrow> bool" where
  "is_primitive (JArr xs) = False"
| "is_primitive (JObj kvs) = False"
| "is_primitive _ = True"

text \<open>No two products of the store share a sku.\<close>

definition skus_distinct :: "jsval list \<Rightarrow> bool" where
  "skus_distinct products = distinct (map (\<lambda>p. get_field p ''sku'') products)"

text \<open>
  The five rules in the words of the specification: name, sku and category non-empty,
  price numeric and strictly greater than 0, stock an integer that is at least 0. A field
  is empty when it is missing or holds one of the empty values of JavaScript; price and
  stock are judged on the number they convert to.
\<close>

definition product_fields :: "string list" where
  "product_fields = [''name'', ''sku'', ''price'', ''stock'', ''category'']"







text \<open>
  The library contract that what \<^verbatim>\<open>jwt.sign\<close> returns decodes to the claims it signed.
\<close>

definition sign_decode_contract :: "jwt_lib \<Rightarrow> bool" where
  "sign_decode_contract l =
     (\<forall>payload secret options token k.
        jwt_sign l payload secret options = Inr token \<and> k \<in> fst ` set (own_props payload)
        \<longrightarrow> get_field (jwt_decode l token) k = get_field payload k)"

text \<open>
  The three reasons of the specification for which a token is refused, on the tokens of
  the library as modelled: it is malformed (no signature part, or a text that decodes to
  no claims), its signature is not the one of its text under the secret, or the current
  time is past the expiry its claims encode.
\<close>

definition malformed :: "token_codec \<Rightarrow> string \<Rightarrow> bool" where
  "malformed c token =
     (case split_last_dot token of
        None \<Rightarrow> True
      | Some (text, signature) \<Rightarrow> codec_dec c text = None)"

definition signature_matches :: "token_codec \<Rightarrow> string \<Rightarrow> string \<Rightarrow> bool" where
  "signature_matches c secret token =
     (case split_last_dot token of
        None \<Rightarrow> False
      | Some (text, signature) \<Rightarrow> signature = codec_mac c secret text)"

definition past_expiry :: "token_codec \<Rightarrow> nat \<Rightarrow> string \<Rightarrow> bool" where
  "past_expiry c now token = claims_expired now (spec_decode c token)"

definition invalid_token :: thrown where
  "invalid_token = ErrorWeb ''Token invalido o expirado'' 401 (JObj [])"

text \<open>The responses named in the statements.\<close>

definition persistence_error :: "string \<Rightarrow> response" where
  "persistence_error message =
     \<lparr>status = 500, json = fail 500 ''ERROR'' (''Error guardando datos: '' @ message) (JObj [])\<rparr>"

definition bad_request :: "string \<Rightarrow> response" where
  "bad_request message = \<lparr>status = 400, json = fail 400 ''BAD_REQUEST'' message (JArr [])\<rparr>"

definition unauthorized :: response where
  "unauthorized = \<lparr>status = 401, json = fail 401 ''UNAUTHORIZED'' ''Invalid credentials'' (JArr [])\<rparr>"

definition token_response :: "string \<Rightarrow> response" where
  "token_response token = \<lparr>status = 200, json = ok (JObj [(''token'', JStr token)]) (JObj [])\<rparr>"

section \<open>Concrete instances\<close>

text \<open>
  StringToNumber on plain decimal literals (an optional sign, digits, an optional
  fraction; the empty string is 0), read exactly: the instance of \<open>s2n\<close> in the
  evaluations below.
\<close>

definition decimal_literal :: "string \<Rightarrow> jsnum" where
  "decimal_literal s =
     (let neg = (case s of [] \<Rightarrow> False | c # r \<Rightarrow> c = CHR ''-'');
          t = (case s of [] \<Rightarrow> [] | c # r \<Rightarrow> if c = CHR ''-'' \<or> c = CHR ''+'' then r else s);
          ip = takeWhile is_digit t;
          rest = dropWhile is_digit t;
          fp = (case rest of [] \<Rightarrow> [] | c # r \<Rightarrow> r);
          v = (of_int (digits_value ip) + of_int (digits_value fp) / 10 ^ length fp :: rat)
      in if s = [] then Fin 0
         else if (ip = [] \<and> fp = []) \<or> (rest \<noteq> [] \<and> hd rest \<noteq> CHR ''.'') \<or> \<not> list_all is_digit fp
         then NaN
         else Fin (if neg then - v else v))"

text \<open>The store \<^verbatim>\<open>part_003\<close> and \<^verbatim>\<open>src/index.js\<close> start with; \<open>i\<close> is its \<^verbatim>\<open>uuid()\<close>.\<close>

definition initial_products :: "string \<Rightarrow> jsval list" where
  "initial_products i =
     [JObj [(''id'', JStr i), (''name'', JStr ''Laptop X''), (''sku'', JStr ''SKU-0001''),
            (''price'', JNum (Fin (99999 / 100))), (''stock'', JNum (Fin 5)),
            (''category'', JStr ''computers'')]]"

definition empty_request :: request where
  "empty_request =
     \<lparr>x_api_key = None, authorization = None, param_id = [], query_page = None,
      query_limit = None, body = JUndefined, user = JUndefined\<rparr>"

text \<open>
  A stand-in for \<^verbatim>\<open>jsonwebtoken\<close> that signs the payloads of the two demo users only,
  under any secret, and verifies its two tokens under the secret \<^verbatim>\<open>s3cr3t\<close>; a third
  token is one that has expired.
\<close>

definition demo_claims :: "jsval \<Rightarrow> jsval" where
  "demo_claims u =
     spread (token_payload u)
       (JObj [(''iat'', JNum (Fin 1000)), (''exp'', JNum (Fin 8200)),
              (''iss'', JStr ''laboratorio8-api'')])"

definition demo_jwt :: jwt_lib where
  "demo_jwt =
     \<lparr>jwt_sign = (\<lambda>payload secret options.
         if payload = token_payload (users ! 0) then Inr ''token-alice''
         else if payload = token_payload (users ! 1) then Inr ''token-bob''
         else Inl (OtherError ''payload not supported'')),
      jwt_verify = (\<lambda>token secret options.
         if secret \<noteq> ''s3cr3t'' then Inl (JsonWebTokenError ''invalid signature'')
         else if token = ''token-alice'' then Inr (demo_claims (users ! 0))
         else if token = ''token-bob'' then Inr (demo_claims (users ! 1))
         else if token = ''token-old'' then Inl TokenExpiredError
         else Inl (JsonWebTokenError ''jwt malformed'')),
      jwt_decode = (\<lambda>token.
         if token = ''token-alice'' then demo_claims (users ! 0)
         else if token = ''token-bob'' then demo_claims (users ! 1)
         else JNull)\<rparr>"

text \<open>
  A small codec for the token library: claims that are strings and natural numbers are
  written as \<^verbatim>\<open>key=svalue;\<close> and \<^verbatim>\<open>key=n123;\<close>, the signature is a checksum of the
  secret and the text in decimal digits, and a time span is a number followed by one of
  \<^verbatim>\<open>s\<close>, \<^verbatim>\<open>m\<close>, \<^verbatim>\<open>h\<close>, \<^verbatim>\<open>d\<close>.
\<close>

fun demo_enc_value :: "jsval \<Rightarrow> string" where
  "demo_enc_value (JStr s) = CHR ''s'' # s"
| "demo_enc_value (JNum (Fin r)) = CHR ''n'' # string_of_nat (nat \<lfloor>r\<rfloor>)"
| "demo_enc_value _ = ''?''"

definition demo_enc :: "jsval \<Rightarrow> string" where
  "demo_enc v = concat (map (\<lambda>(k, x). k @ ''='' @ demo_enc_value x @ '';'') (own_props v))"

definition split_on :: "char \<Rightarrow> string \<Rightarrow> string list" where
  "split_on d s = foldr (\<lambda>ch acc. if ch = d then [] # acc else (ch # hd acc) # tl acc) s [[]]"

definition demo_dec_field :: "string \<Rightarrow> (string \<times> jsval) option" where
  "demo_dec_field f =
     (case dropWhile (\<lambda>ch. ch \<noteq> CHR ''='') f of
        eq # tag # v \<Rightarrow>
          if tag = CHR ''s'' then Some (takeWhile (\<lambda>ch. ch \<noteq> CHR ''='') f, JStr v)
          else if tag = CHR ''n'' \<and> v \<noteq> [] \<and> list_all is_digit v
          then Some (takeWhile (\<lambda>ch. ch \<noteq> CHR ''='') f, JNum (Fin (of_int (digits_value v))))
          else None
      | _ \<Rightarrow> None)"

definition demo_dec :: "string \<Rightarrow> jsval option" where
  "demo_dec text =
     (if text = [] \<or> last text \<noteq> CHR '';'' then None
      else map_option JObj (those (map demo_dec_field (butlast (split_on CHR '';'' text)))))"

definition demo_mac :: "string \<Rightarrow> string \<Rightarrow> string" where
  "demo_mac secret text =
     string_of_nat
       (nat (foldl (\<lambda>a ch. (a * 31 + of_char ch) mod 65521) (7::int) (secret @ ''|'' @ text)))"

definition demo_timespan :: "string \<Rightarrow> nat option" where
  "demo_timespan e =
     (let ds = takeWhile is_digit e; u = dropWhile is_digit e; n = nat (digits_value ds)
      in if ds = [] then None
         else if u = ''s'' then Some n
         else if u = ''m'' then Some (60 * n)
         else if u = ''h'' then Some (3600 * n)
         else if u = ''d'' then Some (86400 * n)
         else None)"

definition demo_codec :: token_codec where
  "demo_codec =
     \<lparr>codec_mac = demo_mac, codec_enc = demo_enc, codec_dec = demo_dec,
      codec_timespan = demo_timespan\<rparr>"

text \<open>
  The claims of the token that the codec issues to the second demo user at the instant
  1000 for two hours.
\<close>

definition demo_issued :: jsval where
  "demo_issued =
     JObj [(''sub'', JStr ''u2''), (''role'', JStr ''editor''), (''username'', JStr ''bob''),
           (''iss'', JStr ''laboratorio8-api''), (''exp'', JNum (Fin 8200)),
           (''iat'', JNum (Fin 1000))]"

definition demo_app :: app where
  "demo_app =
     \<lparr>app_apiKeyGen = \<lparr>apiKey = ''k3y''\<rparr>, app_jwtGen = \<lparr>Secret = ''s3cr3t''\<rparr>,
      app_lib = demo_jwt, app_s2n = decimal_literal, app_JWT_EXPIRES = None\<rparr>"

text \<open>
  The payload of the scenario of the specification, with its sku, price and stock left
  open.
\<close>

definition mouse :: "jsval \<Rightarrow> jsval \<Rightarrow> jsval \<Rightarrow> jsval" where
  "mouse sku price stock =
     JObj [(''name'', JStr ''Mouse''), (''sku'', sku), (''price'', price),
           (''stock'', stock), (''category'', JStr ''peripherals'')]"

text \<open>
  The three mutating operations of \<^verbatim>\<open>part_003\<close> as they follow one another on the
  store.
\<close>

datatype operation = Create string request | Update request | Delete request

fun apply_operation :: "(string \<Rightarrow> jsnum) \<Rightarrow> jsval list \<Rightarrow> operation \<Rightarrow> jsval list" where
  "apply_operation s2n products (Create new_id req) = snd (post_products s2n new_id req products)"
| "apply_operation s2n products (Update req) = snd (put_products_id s2n req products)"
| "apply_operation s2n products (Delete req) = snd (delete_products_id req products)"

fun request_of :: "operation \<Rightarrow> request" where
  "request_of (Create new_id req) = req"
| "request_of (Update req) = req"
| "request_of (Delete req) = req"

section \<open>Basic facts\<close>

lemma validateProduct_unfold:
  "validateProduct s2n payload =
     (if payload = JNull \<or> payload = JUndefined
      then Inl (OtherError ''Cannot read properties of null or undefined'')
      else if throws_to_primitive (get_field payload ''price'')
            \<or> throws_to_primitive (get_field payload ''stock'')
      then Inl (OtherError ''Cannot convert object to primitive value'')
      else Inr (
        (if \<not> truthy payload \<or> typeof payload \<noteq> ''object''
         then [(''body'', ''Invalid body'')] else [])
        @ (if \<not> truthy (get_field payload ''name'') then [(''name'', ''Required'')] else [])
        @ (if \<not> truthy (get_field payload ''sku'') then [(''sku'', ''Required'')] else [])
        @ (if \<not> num_gt (ToNumber s2n (get_field payload ''price'')) (Fin 0)
           then [(''price'', ''Must be > 0'')] else [])
        @ (if \<not> (isInteger (ToNumber s2n (get_field payload ''stock''))
                 \<and> num_ge (ToNumber s2n (get_field payload ''stock'')) (Fin 0))
           then [(''stock'', ''Must be integer >= 0'')] else [])
        @ (if \<not> truthy (get_field payload ''category'') then [(''category'', ''Required'')] else [])))"
  by (simp add: validateProduct_def js_Number_def)

lemma strict_eq_imp_eq: "strict_eq a b \<Longrightarrow> a = b"
  by (cases a; cases b) auto

lemma strict_eq_primitive: "is_primitive v \<Longrightarrow> truthy v \<Longrightarrow> strict_eq w v = (w = v)"
  by (cases w; cases v) auto

lemma sku_exists_primitive:
  "is_primitive v \<Longrightarrow> truthy v \<Longrightarrow>
   sku_exists products v = (v \<in> set (map (\<lambda>p. get_field p ''sku'') products))"
  by (auto simp: sku_exists_def list_ex_iff strict_eq_primitive)

lemma valid_fields:
  assumes "validateProduct s2n b = Inr []"
  shows "truthy (get_field b ''name'')" "truthy (get_field b ''sku'')"
    "truthy (get_field b ''category'')"
    "num_gt (ToNumber s2n (get_field b ''price'')) (Fin 0)"
    "isInteger (ToNumber s2n (get_field b ''stock''))"
    "num_ge (ToNumber s2n (get_field b ''stock'')) (Fin 0)"
  using assms by (auto simp: validateProduct_unfold split: if_splits)

lemma get_field_spread:
  "get_field (spread a b) k = (case map_of (own_props b) k of None \<Rightarrow> get_field a k | Some v \<Rightarrow> v)"
  by (simp add: get_field_def spread_def AList.merge_conv' map_add_def split: option.splits)

lemma findIndex_Some: "findIndex P xs = Some i \<Longrightarrow> i < length xs \<and> P (xs ! i) \<and> (\<forall>j<i. \<not> P (xs ! j))"
proof (induction xs arbitrary: i)
  case Nil
  then show ?case by simp
next
  case (Cons x xs)
  show ?case
  proof (cases "P x")
    case True
    with Cons.prems show ?thesis by simp
  next
    case False
    with Cons.prems obtain k where k: "findIndex P xs = Some k" "i = Suc k" by auto
    from Cons.IH [OF k(1)] False k(2) show ?thesis
      by (auto simp: less_Suc_eq_0_disj)
  qed
qed

lemma object_truthy: "typeof payload = ''object'' \<Longrightarrow> payload \<noteq> JNull \<Longrightarrow> truthy payload \<and> payload \<noteq> JUndefined"
  by (cases payload) auto

lemma validateProduct_Inl:
  "validateProduct s2n p = Inl e \<Longrightarrow> status (error_handler e) = 500"
  by (auto simp: validateProduct_unfold split: if_splits)

section \<open>Creating a product whose sku is taken\<close>

text \<open>
  C1, as the specification states it, fails: the handler validates before it looks for
  the sku, so a payload with a taken sku and a price of -1 is answered 422, not 409.
\<close>

theorem create_taken_sku_invalid_price_is_422:
  "sku_exists (initial_products ''p1'') (get_field (mouse (JStr ''SKU-0001'') (JNum (Fin (- 1))) (JNum (Fin 10))) ''sku'')
   \<and> status (fst (post_products decimal_literal ''p2''
         (empty_request\<lparr>body := mouse (JStr ''SKU-0001'') (JNum (Fin (- 1))) (JNum (Fin 10))\<rparr>)
         (initial_products ''p1''))) = 422
   \<and> status (fst (post_products_persist decimal_literal ''p2'' None
         (empty_request\<lparr>body := mouse (JStr ''SKU-0001'') (JNum (Fin (- 1))) (JNum (Fin 10))\<rparr>)
         \<lparr>in_memory = initial_products ''p1'', files = Map.empty\<rparr>)) = 422"
  by (simp add: post_products_def post_products_persist_def body_or_empty_def empty_request_def
      initial_products_def mouse_def validateProduct_unfold get_field_def sku_exists_def num_ge_def
      unprocessable_def)

text \<open>
  C1, amended: a create request whose payload passes validation and whose sku is a string
  (or another primitive value) equal to the sku of a stored product is answered 409
  Conflict, and the store is unchanged; in \<^verbatim>\<open>part_003\<close> and in \<^verbatim>\<open>part_002\<close> alike.
\<close>

theorem create_conflict_when_valid:
  assumes valid: "validateProduct s2n (body_or_empty req) = Inr []"
    and prim: "is_primitive (get_field (body_or_empty req) ''sku'')"
    and dup: "p \<in> set products" "get_field p ''sku'' = get_field (body_or_empty req) ''sku''"
  shows "post_products s2n new_id req products =
           (conflict, products)
       \<and> post_products_persist s2n new_id write_error req \<lparr>in_memory = products, files = fs\<rparr> =
           (conflict, \<lparr>in_memory = products, files = fs\<rparr>)"
proof -
  have "truthy (get_field (body_or_empty req) ''sku'')"
    using valid by (rule valid_fields)
  with prim have "sku_exists products (get_field (body_or_empty req) ''sku'')
      = (get_field (body_or_empty req) ''sku'' \<in> set (map (\<lambda>p. get_field p ''sku'') products))"
    by (rule sku_exists_primitive)
  moreover have "get_field p ''sku'' \<in> set (map (\<lambda>p. get_field p ''sku'') products)"
    using dup(1) by simp
  ultimately have ex: "sku_exists products (get_field (body_or_empty req) ''sku'')"
    using dup(2) by simp
  show ?thesis
    using valid ex by (simp add: post_products_def post_products_persist_def)
qed

theorem create_conflict_when_valid_witness:
  "validateProduct decimal_literal
       (body_or_empty (empty_request\<lparr>body := mouse (JStr ''SKU-0001'') (JNum (Fin (1999 / 100))) (JNum (Fin 10))\<rparr>)) = Inr []
   \<and> post_products decimal_literal ''p2''
       (empty_request\<lparr>body := mouse (JStr ''SKU-0001'') (JNum (Fin (1999 / 100))) (JNum (Fin 10))\<rparr>)
       (initial_products ''p1'')
     = (conflict, initial_products ''p1'')
   \<and> status conflict = 409"
proof -
  let ?req = "empty_request\<lparr>body := mouse (JStr ''SKU-0001'') (JNum (Fin (1999 / 100))) (JNum (Fin 10))\<rparr>"
  have b: "body_or_empty ?req = mouse (JStr ''SKU-0001'') (JNum (Fin (1999 / 100))) (JNum (Fin 10))"
    by (simp add: body_or_empty_def empty_request_def mouse_def)
  have v: "validateProduct decimal_literal (body_or_empty ?req) = Inr []"
    unfolding b by (simp add: mouse_def validateProduct_unfold get_field_def num_ge_def)
  have s: "get_field (body_or_empty ?req) ''sku'' = JStr ''SKU-0001''"
    unfolding b by (simp add: mouse_def get_field_def)
  have p: "hd (initial_products ''p1'') \<in> set (initial_products ''p1'')"
    by (simp add: initial_products_def)
  have d: "get_field (hd (initial_products ''p1'')) ''sku'' = get_field (body_or_empty ?req) ''sku''"
    unfolding s by (simp add: initial_products_def get_field_def)
  have "is_primitive (get_field (body_or_empty ?req) ''sku'')"
    by (simp add: s)
  from create_conflict_when_valid [OF v this p d, of "''p2''" None Map.empty] v
  show ?thesis by (simp add: conflict_def)
qed

section \<open>Distinct skus\<close>

lemma distinct_remove_nth: "distinct xs \<Longrightarrow> distinct (take i xs @ drop (Suc i) xs)"
  using set_take_disj_set_drop_if_distinct [of xs i "Suc i"] by simp

lemma create_keeps_distinct:
  assumes d: "skus_distinct products" and prim: "is_primitive (get_field (body req) ''sku'')"
  shows "skus_distinct (snd (post_products s2n new_id req products))"
proof (cases "validateProduct s2n (body_or_empty req) = Inr [] \<and> \<not> sku_exists products (get_field (body_or_empty req) ''sku'')")
  case False
  then show ?thesis using d
    by (auto simp: post_products_def Let_def split: sum.splits)
next
  case True
  then have t: "truthy (get_field (body_or_empty req) ''sku'')"
    using valid_fields(2) by blast
  then have b: "body_or_empty req = body req"
    by (auto simp: body_or_empty_def get_field_def split: if_splits)
  from True t prim have "get_field (body req) ''sku'' \<notin> set (map (\<lambda>p. get_field p ''sku'') products)"
    by (simp add: b sku_exists_primitive)
  moreover have "get_field (new_entity s2n new_id (body req)) ''sku'' = get_field (body req) ''sku''"
    by (simp add: new_entity_def get_field_def)
  ultimately show ?thesis using True d
    by (simp add: post_products_def Let_def b skus_distinct_def)
qed

lemma delete_keeps_distinct:
  assumes d: "skus_distinct products"
  shows "skus_distinct (snd (delete_products_id req products))"
  using d distinct_remove_nth [of "map (\<lambda>p. get_field p ''sku'') products"]
  by (auto simp: delete_products_id_def skus_distinct_def take_map drop_map split: option.splits)

lemma update_keeps_distinct:
  assumes d: "skus_distinct products" and prim: "is_primitive (get_field (body req) ''sku'')"
  shows "skus_distinct (snd (put_products_id s2n req products))"
proof (cases "findIndex (has_id (param_id req)) products")
  case None
  then show ?thesis using d by (simp add: put_products_id_def)
next
  case (Some idx)
  then have idx: "idx < length products" using findIndex_Some by blast
  let ?old = "products ! idx"
  let ?merged = "spread ?old (body req)"
  let ?v = "get_field (body req) ''sku''"
  let ?skus = "map (\<lambda>p. get_field p ''sku'') products"
  let ?updated = "spread ?old
                        (JObj [(''name'', get_field ?merged ''name''),
                               (''sku'', get_field ?merged ''sku''),
                               (''price'', JNum (ToNumber s2n (get_field ?merged ''price''))),
                               (''stock'', JNum (ToNumber s2n (get_field ?merged ''stock''))),
                               (''category'', get_field ?merged ''category'')])"
  have upd: "get_field ?updated ''sku'' = get_field ?merged ''sku''"
    by (simp add: get_field_spread)
  show ?thesis
  proof (cases "validateProduct s2n ?merged = Inr [] \<and> \<not> (truthy ?v \<and> \<not> strict_eq ?v (get_field ?old ''sku'') \<and> sku_exists products ?v)")
    case False
    then show ?thesis using d Some
      by (auto simp: put_products_id_def Let_def split: sum.splits)
  next
    case True
    then have res: "snd (put_products_id s2n req products) = products[idx := ?updated]"
      using Some by (auto simp add: put_products_id_def Let_def)
    from True have tm: "truthy (get_field ?merged ''sku'')"
      using valid_fields(2) by blast
    have "distinct (?skus[idx := get_field ?merged ''sku''])"
    proof (cases "map_of (own_props (body req)) ''sku''")
      case None
      then have "get_field ?merged ''sku'' = ?skus ! idx"
        using idx by (simp add: get_field_spread)
      then show ?thesis using d by (simp add: skus_distinct_def)
    next
      case (Some v)
      then have v: "get_field ?merged ''sku'' = v" "?v = v"
        by (simp add: get_field_spread, simp add: get_field_def)
      with tm prim have tv: "truthy v" "is_primitive v" by simp_all
      from True v tv have "strict_eq v (get_field ?old ''sku'') \<or> \<not> sku_exists products v"
        by auto
      then show ?thesis
      proof
        assume "strict_eq v (get_field ?old ''sku'')"
        then have "v = ?skus ! idx" using idx by (simp add: strict_eq_imp_eq)
        then show ?thesis using d v by (simp add: skus_distinct_def)
      next
        assume "\<not> sku_exists products v"
        then have "v \<notin> set ?skus" using tv by (simp add: sku_exists_primitive)
        then show ?thesis using d v
          by (simp add: skus_distinct_def distinct_list_update)
      qed
    qed
    then show ?thesis
      by (simp add: res skus_distinct_def map_update upd)
  qed
qed

text \<open>
  C2, as the specification states it, fails: \<^verbatim>\<open>===\<close> compares arrays by reference, so
  the sku \<^verbatim>\<open>["a"]\<close> of a payload is never found in the store and a second product with
  the same sku is created.
\<close>

theorem array_sku_created_twice:
  "skus_distinct (foldl (apply_operation decimal_literal) (initial_products ''p1'')
      [Create ''p2'' (empty_request\<lparr>body := mouse (JArr [JStr ''a'']) (JNum (Fin 1)) (JNum (Fin 10))\<rparr>)])
   \<and> \<not> skus_distinct (foldl (apply_operation decimal_literal) (initial_products ''p1'')
      [Create ''p2'' (empty_request\<lparr>body := mouse (JArr [JStr ''a'']) (JNum (Fin 1)) (JNum (Fin 10))\<rparr>),
       Create ''p3'' (empty_request\<lparr>body := mouse (JArr [JStr ''a'']) (JNum (Fin 1)) (JNum (Fin 10))\<rparr>)])"
  by (simp add: post_products_def body_or_empty_def empty_request_def initial_products_def
      mouse_def validateProduct_unfold get_field_def sku_exists_def num_ge_def new_entity_def
      skus_distinct_def)

text \<open>
  C2, amended: starting from a store whose products have pairwise distinct skus, every
  sequence of create, update and delete operations whose payloads carry no sku or a
  primitive one (a string, a number, a boolean, not an array or an object) leaves a store
  whose products have pairwise distinct skus.
\<close>

theorem operations_keep_skus_distinct:
  assumes "skus_distinct products"
    and "\<forall>op \<in> set ops. is_primitive (get_field (body (request_of op)) ''sku'')"
  shows "skus_distinct (foldl (apply_operation s2n) products ops)"
  using assms
proof (induction ops arbitrary: products)
  case Nil
  then show ?case by simp
next
  case (Cons op ops)
  have "skus_distinct (apply_operation s2n products op)"
    using Cons.prems
    by (cases op) (simp_all add: create_keeps_distinct update_keeps_distinct delete_keeps_distinct)
  with Cons show ?case by simp
qed

theorem operations_keep_skus_distinct_witness:
  "skus_distinct (initial_products ''p1'')
   \<and> skus_distinct (foldl (apply_operation decimal_literal) (initial_products ''p1'')
      [Create ''p2'' (empty_request\<lparr>body := mouse (JStr ''SKU-0002'') (JNum (Fin 1)) (JNum (Fin 10))\<rparr>),
       Update (empty_request\<lparr>param_id := ''p2'', body := JObj [(''sku'', JStr ''SKU-0001'')]\<rparr>),
       Delete (empty_request\<lparr>param_id := ''p1''\<rparr>)])"
proof -
  have d: "skus_distinct (initial_products ''p1'')"
    by (simp add: skus_distinct_def initial_products_def)
  have p: "\<forall>op \<in> set
      [Create ''p2'' (empty_request\<lparr>body := mouse (JStr ''SKU-0002'') (JNum (Fin 1)) (JNum (Fin 10))\<rparr>),
       Update (empty_request\<lparr>param_id := ''p2'', body := JObj [(''sku'', JStr ''SKU-0001'')]\<rparr>),
       Delete (empty_request\<lparr>param_id := ''p1''\<rparr>)].
        is_primitive (get_field (body (request_of op)) ''sku'')"
    by (simp add: empty_request_def mouse_def get_field_def)
  from operations_keep_skus_distinct [OF d p, of decimal_literal] d show ?thesis by simp
qed

section \<open>Validation\<close>






lemma body_or_empty_object:
  "typeof (body req) = ''object'' \<or> \<not> truthy (body req) \<Longrightarrow>
   typeof (body_or_empty req) = ''object'' \<and> body_or_empty req \<noteq> JNull"
  by (auto simp: body_or_empty_def)




section \<open>The stored price and stock\<close>

text \<open>
  C10: a payload whose price is a string that the runtime reads as a number above 0 and
  whose stock is \<^verbatim>\<open>true\<close> passes validation (its other fields being present); and for
  every payload that passes validation and whose sku is free, create appends a record
  whose price and stock are \<^verbatim>\<open>Number(payload.price)\<close> and \<^verbatim>\<open>Number(payload.stock)\<close>:
  the number read from the string, and 1 for \<^verbatim>\<open>true\<close>.
\<close>

theorem create_stores_numbers:
  "(typeof (body_or_empty req) = ''object'' \<and> body_or_empty req \<noteq> JNull
      \<and> truthy (get_field (body_or_empty req) ''name'')
      \<and> truthy (get_field (body_or_empty req) ''sku'')
      \<and> truthy (get_field (body_or_empty req) ''category'')
      \<and> get_field (body_or_empty req) ''price'' = JStr s \<and> num_gt (s2n s) (Fin 0)
      \<and> get_field (body_or_empty req) ''stock'' = JBool True
    \<longrightarrow> validateProduct s2n (body_or_empty req) = Inr [])
   \<and> (validateProduct s2n (body_or_empty req) = Inr []
        \<and> \<not> sku_exists products (get_field (body_or_empty req) ''sku'')
    \<longrightarrow> post_products s2n new_id req products
          = (\<lparr>status = 201, json = ok (new_entity s2n new_id (body_or_empty req)) (JObj [])\<rparr>,
             products @ [new_entity s2n new_id (body_or_empty req)])
      \<and> get_field (new_entity s2n new_id (body_or_empty req)) ''price''
          = JNum (ToNumber s2n (get_field (body_or_empty req) ''price''))
      \<and> get_field (new_entity s2n new_id (body_or_empty req)) ''stock''
          = JNum (ToNumber s2n (get_field (body_or_empty req) ''stock''))
      \<and> (get_field (body_or_empty req) ''price'' = JStr s
           \<longrightarrow> get_field (new_entity s2n new_id (body_or_empty req)) ''price'' = JNum (s2n s))
      \<and> (get_field (body_or_empty req) ''stock'' = JBool True
           \<longrightarrow> get_field (new_entity s2n new_id (body_or_empty req)) ''stock'' = JNum (Fin 1)))"
proof (intro conjI impI)
  assume a: "typeof (body_or_empty req) = ''object'' \<and> body_or_empty req \<noteq> JNull
      \<and> truthy (get_field (body_or_empty req) ''name'')
      \<and> truthy (get_field (body_or_empty req) ''sku'')
      \<and> truthy (get_field (body_or_empty req) ''category'')
      \<and> get_field (body_or_empty req) ''price'' = JStr s \<and> num_gt (s2n s) (Fin 0)
      \<and> get_field (body_or_empty req) ''stock'' = JBool True"
  then have "truthy (body_or_empty req) \<and> body_or_empty req \<noteq> JUndefined"
    using object_truthy by blast
  with a show "validateProduct s2n (body_or_empty req) = Inr []"
    by (simp add: validateProduct_unfold num_ge_def)
next
  assume "validateProduct s2n (body_or_empty req) = Inr []
        \<and> \<not> sku_exists products (get_field (body_or_empty req) ''sku'')"
  then show "post_products s2n new_id req products
          = (\<lparr>status = 201, json = ok (new_entity s2n new_id (body_or_empty req)) (JObj [])\<rparr>,
             products @ [new_entity s2n new_id (body_or_empty req)])"
    by (simp add: post_products_def Let_def)
qed (simp_all add: new_entity_def get_field_def)

theorem create_stores_numbers_witness:
  "validateProduct decimal_literal (mouse (JStr ''SKU-0002'') (JStr ''19.99'') (JBool True)) = Inr []
   \<and> snd (post_products decimal_literal ''p2''
         (empty_request\<lparr>body := mouse (JStr ''SKU-0002'') (JStr ''19.99'') (JBool True)\<rparr>)
         (initial_products ''p1''))
       = initial_products ''p1'' @
         [JObj [(''id'', JStr ''p2''), (''name'', JStr ''Mouse''), (''sku'', JStr ''SKU-0002''),
                (''price'', JNum (Fin (1999 / 100))), (''stock'', JNum (Fin 1)),
                (''category'', JStr ''peripherals'')]]"
proof -
  let ?P = "mouse (JStr ''SKU-0002'') (JStr ''19.99'') (JBool True)"
  let ?req = "empty_request\<lparr>body := ?P\<rparr>"
  have b: "body_or_empty ?req = ?P"
    by (simp add: body_or_empty_def empty_request_def mouse_def)
  have d: "decimal_literal ''19.99'' = Fin (1999 / 100)"
    by (simp add: decimal_literal_def is_digit_def digits_value_def)
  have pre: "typeof ?P = ''object'' \<and> ?P \<noteq> JNull
      \<and> truthy (get_field ?P ''name'') \<and> truthy (get_field ?P ''sku'')
      \<and> truthy (get_field ?P ''category'')
      \<and> get_field ?P ''price'' = JStr ''19.99'' \<and> num_gt (decimal_literal ''19.99'') (Fin 0)
      \<and> get_field ?P ''stock'' = JBool True"
    unfolding d by (simp add: mouse_def get_field_def)
  have free: "\<not> sku_exists (initial_products ''p1'') (get_field ?P ''sku'')"
    by (simp add: sku_exists_def initial_products_def mouse_def get_field_def)
  have ent: "new_entity decimal_literal ''p2'' ?P =
         JObj [(''id'', JStr ''p2''), (''name'', JStr ''Mouse''), (''sku'', JStr ''SKU-0002''),
                (''price'', JNum (Fin (1999 / 100))), (''stock'', JNum (Fin 1)),
                (''category'', JStr ''peripherals'')]"
    by (simp add: new_entity_def mouse_def get_field_def d)
  from create_stores_numbers [of ?req "''19.99''" decimal_literal "initial_products ''p1''" "''p2''"]
    pre free
  show ?thesis unfolding b by (simp add: ent)
qed

section \<open>A write that fails after the mutation\<close>

lemma save_then_fails:
  "save_then (Some message) res st = (persistence_error message, st)"
  by (simp add: save_then_def saveProducts_def saveToJSON_def persistence_error_def)

lemma save_then_ok:
  "save_then None res st = (res, st\<lparr>files := (files st)(''products.json'' \<mapsto> JArr (in_memory st))\<rparr>)"
  by (simp add: save_then_def saveProducts_def saveToJSON_def)

lemma create_persist_failure:
  assumes "status (fst (post_products_persist s2n new_id None req st)) = 201"
  shows "post_products_persist s2n new_id (Some message) req st
           = (persistence_error message,
              st\<lparr>in_memory := in_memory st @ [new_entity s2n new_id (body_or_empty req)]\<rparr>)
       \<and> in_memory (snd (post_products_persist s2n new_id (Some message) req st))
           = in_memory (snd (post_products_persist s2n new_id None req st))"
  using assms
  by (auto simp: post_products_persist_def Let_def save_then_fails save_then_ok unprocessable_def
      conflict_def split: sum.splits if_splits dest: validateProduct_Inl)

lemma update_persist_failure:
  assumes "status (fst (put_products_id_persist s2n None req st)) = 200"
  shows "fst (put_products_id_persist s2n (Some message) req st) = persistence_error message
       \<and> in_memory (snd (put_products_id_persist s2n (Some message) req st))
           = in_memory (snd (put_products_id_persist s2n None req st))
       \<and> files (snd (put_products_id_persist s2n (Some message) req st)) = files st"
  using assms
  by (auto simp: put_products_id_persist_def Let_def save_then_fails save_then_ok unprocessable_def
      conflict_def not_found_def split: sum.splits if_splits option.splits dest: validateProduct_Inl)

lemma delete_persist_failure:
  assumes "status (fst (delete_products_id_persist None req st)) = 204"
  shows "fst (delete_products_id_persist (Some message) req st) = persistence_error message
       \<and> in_memory (snd (delete_products_id_persist (Some message) req st))
           = in_memory (snd (delete_products_id_persist None req st))
       \<and> Suc (length (in_memory (snd (delete_products_id_persist (Some message) req st))))
           = length (in_memory st)
       \<and> files (snd (delete_products_id_persist (Some message) req st)) = files st"
proof (cases "findIndex (has_id (param_id req)) (in_memory st)")
  case None
  with assms show ?thesis by (simp add: delete_products_id_persist_def not_found_def)
next
  case (Some idx)
  then have "idx < length (in_memory st)" using findIndex_Some by blast
  with Some show ?thesis
    by (simp add: delete_products_id_persist_def save_then_fails save_then_ok)
qed

text \<open>
  C4: in \<^verbatim>\<open>part_002\<close>, whenever create, update or delete would answer 201, 200 or 204
  with a write that succeeds, the same request with a write that fails is answered by the
  error handler with status 500 and the message of \<^verbatim>\<open>saveToJSON\<close>, the array in memory
  is the mutated one (the same as after the successful write), and no file is written.
\<close>

theorem persistence_failure_keeps_mutation:
  "(status (fst (post_products_persist s2n new_id None req st)) = 201 \<longrightarrow>
      post_products_persist s2n new_id (Some message) req st
        = (persistence_error message,
           st\<lparr>in_memory := in_memory st @ [new_entity s2n new_id (body_or_empty req)]\<rparr>)
      \<and> in_memory (snd (post_products_persist s2n new_id (Some message) req st))
           = in_memory (snd (post_products_persist s2n new_id None req st)))
   \<and> (status (fst (put_products_id_persist s2n None req st)) = 200 \<longrightarrow>
      fst (put_products_id_persist s2n (Some message) req st) = persistence_error message
      \<and> in_memory (snd (put_products_id_persist s2n (Some message) req st))
           = in_memory (snd (put_products_id_persist s2n None req st))
      \<and> files (snd (put_products_id_persist s2n (Some message) req st)) = files st)
   \<and> (status (fst (delete_products_id_persist None req st)) = 204 \<longrightarrow>
      fst (delete_products_id_persist (Some message) req st) = persistence_error message
      \<and> in_memory (snd (delete_products_id_persist (Some message) req st))
           = in_memory (snd (delete_products_id_persist None req st))
      \<and> Suc (length (in_memory (snd (delete_products_id_persist (Some message) req st))))
           = length (in_memory st)
      \<and> files (snd (delete_products_id_persist (Some message) req st)) = files st)"
  using create_persist_failure update_persist_failure delete_persist_failure by blast

theorem persistence_failure_keeps_mutation_witness:
  "status (fst (post_products_persist decimal_literal ''p2'' None
       (empty_request\<lparr>body := mouse (JStr ''SKU-0002'') (JNum (Fin (1999 / 100))) (JNum (Fin 10))\<rparr>)
       \<lparr>in_memory = initial_products ''p1'', files = Map.empty\<rparr>)) = 201
   \<and> status (fst (post_products_persist decimal_literal ''p2'' (Some ''ENOSPC'')
       (empty_request\<lparr>body := mouse (JStr ''SKU-0002'') (JNum (Fin (1999 / 100))) (JNum (Fin 10))\<rparr>)
       \<lparr>in_memory = initial_products ''p1'', files = Map.empty\<rparr>)) = 500
   \<and> length (in_memory (snd (post_products_persist decimal_literal ''p2'' (Some ''ENOSPC'')
       (empty_request\<lparr>body := mouse (JStr ''SKU-0002'') (JNum (Fin (1999 / 100))) (JNum (Fin 10))\<rparr>)
       \<lparr>in_memory = initial_products ''p1'', files = Map.empty\<rparr>))) = 2"
proof -
  let ?req = "empty_request\<lparr>body := mouse (JStr ''SKU-0002'') (JNum (Fin (1999 / 100))) (JNum (Fin 10))\<rparr>"
  let ?st = "\<lparr>in_memory = initial_products ''p1'', files = Map.empty\<rparr>"
  have ok: "status (fst (post_products_persist decimal_literal ''p2'' None ?req ?st)) = 201"
    by (simp add: post_products_persist_def body_or_empty_def empty_request_def mouse_def
        validateProduct_unfold get_field_def num_ge_def sku_exists_def initial_products_def
        save_then_ok Let_def)
  from persistence_failure_keeps_mutation [of decimal_literal "''p2''" ?req ?st "''ENOSPC''"] ok
  have "post_products_persist decimal_literal ''p2'' (Some ''ENOSPC'') ?req ?st
        = (persistence_error ''ENOSPC'',
           ?st\<lparr>in_memory := in_memory ?st @ [new_entity decimal_literal ''p2'' (body_or_empty ?req)]\<rparr>)"
    by blast
  with ok show ?thesis
    by (simp add: persistence_error_def initial_products_def)
qed

section \<open>Pagination\<close>

text \<open>
  C5 fails on the code by a missed case: \<^verbatim>\<open>parseInt('abc', 10)\<close> is \<^verbatim>\<open>NaN\<close> and
  \<^verbatim>\<open>Math.max(1, NaN)\<close> is \<^verbatim>\<open>NaN\<close>, so the page of \<^verbatim>\<open>GET /products?page=abc\<close> is not
  clamped to 1, and \<^verbatim>\<open>slice(NaN, NaN)\<close> returns no item of a store that has one on its
  first page. The same happens with a limit that is no number.
\<close>

theorem list_page_not_a_number:
  "list_page (empty_request\<lparr>query_page := Some ''abc''\<rparr>) = NaN
   \<and> list_items (empty_request\<lparr>query_page := Some ''abc''\<rparr>) (initial_products ''p1'') = []
   \<and> list_items (empty_request\<lparr>query_page := Some ''1''\<rparr>) (initial_products ''p1'')
       = initial_products ''p1''
   \<and> list_limit (empty_request\<lparr>query_limit := Some ''many''\<rparr>) = NaN
   \<and> list_items (empty_request\<lparr>query_limit := Some ''many''\<rparr>) (initial_products ''p1'') = []"
  by (simp add: list_page_def list_limit_def list_items_def query_or_def empty_request_def
      parseInt10_def is_ws_def is_digit_def digits_value_def math_max_def num_sub_def slice_def
      initial_products_def Let_def)

text \<open>
  For a page and a limit that \<^verbatim>\<open>parseInt\<close> reads as integers, the handler does what the
  specification says: both are clamped to at least 1 and the items are the window of the
  store that starts at \<open>(page - 1) * limit\<close> and has at most \<open>limit\<close> elements (none
  when the page is out of range).
\<close>

lemma parseInt10_range:
  "parseInt10 s = NaN \<or> parseInt10 s = PosInf \<or> parseInt10 s = NegInf
   \<or> (\<exists>i. parseInt10 s = Fin (of_int i))"
proof -
  have "\<exists>i. Fin (- rat_of_int v) = Fin (rat_of_int i)" for v
    using of_int_minus [of v, where ?'a = rat] by metis
  then show ?thesis
    by (auto simp: parseInt10_def Let_def)
qed

lemma to_index_int: "0 \<le> i \<Longrightarrow> to_index len (Fin (of_int i)) = min (nat i) len"
  by (simp add: Let_def)

lemma slice_window:
  assumes "0 \<le> a" and "0 \<le> l"
  shows "slice xs (Fin (of_int a)) (Fin (of_int (a + l))) = take (nat l) (drop (nat a) xs)"
proof -
  have "slice xs (Fin (of_int a)) (Fin (of_int (a + l)))
      = take (min (nat (a + l)) (length xs) - min (nat a) (length xs)) (drop (min (nat a) (length xs)) xs)"
    using assms by (simp only: slice_def Let_def to_index_int add_nonneg_nonneg)
  also have "\<dots> = take (nat l) (drop (nat a) xs)"
  proof (cases "nat a \<le> length xs")
    case True
    then have m: "min (nat a) (length xs) = nat a" by simp
    have "nat (a + l) = nat a + nat l"
      using assms by (simp add: nat_add_distrib)
    then have "min (nat (a + l)) (length xs) - nat a = min (nat l) (length xs - nat a)"
      using True by linarith
    moreover have "take (min (nat l) (length (drop (nat a) xs))) (drop (nat a) xs)
        = take (nat l) (drop (nat a) xs)"
      by (simp add: min_def)
    ultimately show ?thesis by (simp add: m)
  next
    case False
    then show ?thesis by simp
  qed
  finally show ?thesis .
qed

lemma list_numeric:
  assumes "parseInt10 (query_or (query_page req) ''1'') = Fin (of_int p)"
    and "parseInt10 (query_or (query_limit req) ''10'') = Fin (of_int l)"
  shows "list_page req = Fin (of_int (max 1 p))
       \<and> list_limit req = Fin (of_int (max 1 l))
       \<and> list_items req products
           = take (nat (max 1 l)) (drop (nat ((max 1 p - 1) * max 1 l)) products)"
proof -
  have pg: "list_page req = Fin (of_int (max 1 p))"
    using assms(1) by (simp add: list_page_def math_max_def max_def)
  have lm: "list_limit req = Fin (of_int (max 1 l))"
    using assms(2) by (simp add: list_limit_def math_max_def max_def)
  have off: "num_mul (num_sub (Fin (of_int (max 1 p))) (Fin 1)) (Fin (of_int (max 1 l)))
      = Fin (of_int ((max 1 p - 1) * max 1 l))"
    by (simp add: num_sub_def)
  have en: "num_add (Fin (of_int ((max 1 p - 1) * max 1 l))) (Fin (of_int (max 1 l)))
      = Fin (of_int ((max 1 p - 1) * max 1 l + max 1 l))"
    by simp
  have "list_items req products
      = slice products (Fin (of_int ((max 1 p - 1) * max 1 l)))
          (Fin (of_int ((max 1 p - 1) * max 1 l + max 1 l)))"
    by (simp only: list_items_def Let_def pg lm off en)
  also have "\<dots> = take (nat (max 1 l)) (drop (nat ((max 1 p - 1) * max 1 l)) products)"
    by (rule slice_window) simp_all
  finally show ?thesis using pg lm by simp
qed

section \<open>What an update changes\<close>

text \<open>
  C6 fails on \<^verbatim>\<open>src/index.js\<close>, whose update stores the merged object itself: a payload
  with an \<^verbatim>\<open>id\<close> changes the id of the record. The update of \<^verbatim>\<open>part_003\<close> (and of
  \<^verbatim>\<open>part_002\<close>) takes only the five product fields from the merged object and keeps the
  id.
\<close>

theorem indexjs_update_overwrites_id:
  "put_products_id_indexjs decimal_literal
       (empty_request\<lparr>param_id := ''p1'', body := JObj [(''id'', JStr ''p2'')]\<rparr>)
       (initial_products ''p1'')
     = (\<lparr>status = 200, json = ok (hd (initial_products ''p2'')) (JObj [])\<rparr>, initial_products ''p2'')
   \<and> snd (put_products_id decimal_literal
       (empty_request\<lparr>param_id := ''p1'', body := JObj [(''id'', JStr ''p2'')]\<rparr>)
       (initial_products ''p1''))
     = initial_products ''p1''"
  by (simp add: put_products_id_indexjs_def put_products_id_def empty_request_def
      initial_products_def has_id_def get_field_def spread_def AList.merge_def set_field_def
      validateProduct_unfold num_ge_def Let_def sku_exists_def)

text \<open>
  The update of \<^verbatim>\<open>part_003\<close>: a successful update replaces one record by a record with
  the same id and the same values of all fields but the five product fields; each of these
  is the payload's when the payload has it and the old one otherwise, price and stock
  through \<^verbatim>\<open>Number\<close>; the other records stay.
\<close>

lemma update_frame:
  assumes r: "put_products_id s2n req products = (res, products')" and st: "status res = 200"
  shows "\<exists>idx. findIndex (has_id (param_id req)) products = Some idx
       \<and> length products' = length products
       \<and> (\<forall>j. j \<noteq> idx \<longrightarrow> products' ! j = products ! j)
       \<and> get_field (products' ! idx) ''id'' = get_field (products ! idx) ''id''
       \<and> (\<forall>k. k \<notin> set product_fields
            \<longrightarrow> get_field (products' ! idx) k = get_field (products ! idx) k)
       \<and> (\<forall>k \<in> {''name'', ''sku'', ''category''}.
            get_field (products' ! idx) k
              = (case map_of (own_props (body req)) k of
                   None \<Rightarrow> get_field (products ! idx) k | Some v \<Rightarrow> v))
       \<and> (\<forall>k \<in> {''price'', ''stock''}.
            get_field (products' ! idx) k
              = JNum (ToNumber s2n (case map_of (own_props (body req)) k of
                   None \<Rightarrow> get_field (products ! idx) k | Some v \<Rightarrow> v)))"
proof (cases "findIndex (has_id (param_id req)) products")
  case None
  with r st show ?thesis by (auto simp: put_products_id_def not_found_def)
next
  case (Some idx)
  then have idx: "idx < length products" using findIndex_Some by blast
  let ?old = "products ! idx"
  let ?merged = "spread ?old (body req)"
  let ?updated = "spread ?old
                        (JObj [(''name'', get_field ?merged ''name''),
                               (''sku'', get_field ?merged ''sku''),
                               (''price'', JNum (ToNumber s2n (get_field ?merged ''price''))),
                               (''stock'', JNum (ToNumber s2n (get_field ?merged ''stock''))),
                               (''category'', get_field ?merged ''category'')])"
  from r st Some have p': "products' = products[idx := ?updated]"
    by (auto simp: put_products_id_def Let_def unprocessable_def conflict_def
        split: sum.splits if_splits dest: validateProduct_Inl)
  have "get_field ?updated ''id'' = get_field ?old ''id''"
    by (simp add: get_field_spread)
  moreover have "\<forall>k. k \<notin> set product_fields \<longrightarrow> get_field ?updated k = get_field ?old k"
    by (simp add: get_field_spread product_fields_def)
  moreover have "\<forall>k \<in> {''name'', ''sku'', ''category''}. get_field ?updated k
      = (case map_of (own_props (body req)) k of None \<Rightarrow> get_field ?old k | Some v \<Rightarrow> v)"
    by (simp add: get_field_spread)
  moreover have "\<forall>k \<in> {''price'', ''stock''}. get_field ?updated k
      = JNum (ToNumber s2n (case map_of (own_props (body req)) k of
                   None \<Rightarrow> get_field ?old k | Some v \<Rightarrow> v))"
    by (simp add: get_field_spread)
  ultimately show ?thesis using Some idx by (simp add: p')
qed

section \<open>Verifying a token\<close>

text \<open>
  \<^verbatim>\<open>verifyToken\<close> of \<^verbatim>\<open>JWTGenerator.js\<close> over the token library of the specification:
  the framing of a token, what the library accepts and refuses, and what \<^verbatim>\<open>verifyToken\<close>
  makes of it.
\<close>

lemma split_last_dot_framed:
  assumes "CHR ''.'' \<notin> set signature"
  shows "split_last_dot (text @ ''.'' @ signature) = Some (text, signature)"
proof -
  have r: "rev (text @ ''.'' @ signature) = rev signature @ CHR ''.'' # rev text"
    by simp
  have "dropWhile (\<lambda>ch. ch \<noteq> CHR ''.'') (rev signature @ CHR ''.'' # rev text)
      = dropWhile (\<lambda>ch. ch \<noteq> CHR ''.'') (CHR ''.'' # rev text)"
    by (rule dropWhile_append2) (use assms in auto)
  then have d: "dropWhile (\<lambda>ch. ch \<noteq> CHR ''.'') (rev signature @ CHR ''.'' # rev text)
      = CHR ''.'' # rev text"
    by simp
  have "takeWhile (\<lambda>ch. ch \<noteq> CHR ''.'') (rev signature @ CHR ''.'' # rev text)
      = rev signature @ takeWhile (\<lambda>ch. ch \<noteq> CHR ''.'') (CHR ''.'' # rev text)"
    by (rule takeWhile_append2) (use assms in auto)
  then have t: "takeWhile (\<lambda>ch. ch \<noteq> CHR ''.'') (rev signature @ CHR ''.'' # rev text)
      = rev signature"
    by simp
  show ?thesis
    unfolding split_last_dot_def r d t by simp
qed

lemma spec_verify_accepts:
  "spec_verify c now token secret options = Inr claims
   \<longleftrightarrow> \<not> malformed c token \<and> signature_matches c secret token
       \<and> \<not> past_expiry c now token \<and> claims = spec_decode c token"
  by (auto simp: spec_verify_def malformed_def signature_matches_def past_expiry_def
      spec_decode_def split: option.splits if_splits)

lemma spec_verify_refuses:
  "(\<exists>f. spec_verify c now token secret options = Inl f)
   \<longleftrightarrow> malformed c token \<or> \<not> signature_matches c secret token \<or> past_expiry c now token"
  by (auto simp: spec_verify_def malformed_def signature_matches_def past_expiry_def
      spec_decode_def claims_expired_def get_field_def split: option.splits if_splits)

lemma verifyToken_Inl: "verifyToken l gen token options = Inl err \<Longrightarrow> err = invalid_token"
  by (auto simp: verifyToken_def invalid_token_def split: sum.splits)

lemma verifyToken_spec_accepts:
  "verifyToken (spec_jwt c now) gen token options = Inr claims
   \<longleftrightarrow> \<not> malformed c token \<and> signature_matches c (Secret gen) token
       \<and> \<not> past_expiry c now token \<and> claims = spec_decode c token"
proof -
  have "verifyToken (spec_jwt c now) gen token options = Inr claims
      \<longleftrightarrow> spec_verify c now token (Secret gen) options = Inr claims"
    by (auto simp: verifyToken_def spec_jwt_def split: sum.splits)
  then show ?thesis by (simp add: spec_verify_accepts)
qed

lemma verifyToken_spec_refuses:
  "verifyToken (spec_jwt c now) gen token options = Inl err
   \<longleftrightarrow> err = invalid_token
       \<and> (malformed c token \<or> \<not> signature_matches c (Secret gen) token
           \<or> past_expiry c now token)"
proof -
  have "verifyToken (spec_jwt c now) gen token options = Inl err
      \<longleftrightarrow> err = invalid_token \<and> (\<exists>f. spec_verify c now token (Secret gen) options = Inl f)"
    by (auto simp: verifyToken_def spec_jwt_def invalid_token_def split: sum.splits)
  then show ?thesis by (simp add: spec_verify_refuses)
qed

lemma issued_exp:
  "get_field (issued_claims t0 ttl issuer payload) ''exp'' = JNum (Fin (of_nat (t0 + ttl)))"
  by (simp add: issued_claims_def get_field_spread)

lemma issued_keeps_payload:
  "k \<notin> {''iat'', ''exp'', ''iss''} \<Longrightarrow>
   get_field (issued_claims t0 ttl issuer payload) k = get_field payload k"
  by (simp add: issued_claims_def get_field_spread)

lemma issued_expired:
  "claims_expired now (issued_claims t0 ttl issuer payload) = (t0 + ttl < now)"
  by (simp add: claims_expired_def issued_exp del: of_nat_add)

lemma issue_then_verify:
  assumes e: "get_field (spread defaultOptions options) ''expiresIn'' = JStr e"
    and t: "codec_timespan c e = Some ttl"
    and cl: "claims = issued_claims t0 ttl (get_field (spread defaultOptions options) ''issuer'') payload"
    and d: "codec_dec c (codec_enc c claims) = Some claims"
    and m: "CHR ''.'' \<notin> set (codec_mac c (Secret gen) (codec_enc c claims))"
  shows "generateToken (spec_jwt c t0) gen payload options
           = Inr (codec_enc c claims @ ''.'' @ codec_mac c (Secret gen) (codec_enc c claims))"
    and "now \<le> t0 + ttl \<Longrightarrow>
         verifyToken (spec_jwt c now) gen
           (codec_enc c claims @ ''.'' @ codec_mac c (Secret gen) (codec_enc c claims)) opts
           = Inr claims"
    and "t0 + ttl < now \<Longrightarrow>
         verifyToken (spec_jwt c now) gen
           (codec_enc c claims @ ''.'' @ codec_mac c (Secret gen) (codec_enc c claims)) opts
           = Inl invalid_token"
    and "signature \<noteq> codec_mac c (Secret gen) (codec_enc c claims) \<Longrightarrow>
         CHR ''.'' \<notin> set signature \<Longrightarrow>
         verifyToken (spec_jwt c now) gen (codec_enc c claims @ ''.'' @ signature) opts
           = Inl invalid_token"
    and "codec_mac c secret' (codec_enc c claims) \<noteq> codec_mac c (Secret gen) (codec_enc c claims) \<Longrightarrow>
         verifyToken (spec_jwt c now) \<lparr>Secret = secret'\<rparr>
           (codec_enc c claims @ ''.'' @ codec_mac c (Secret gen) (codec_enc c claims)) opts
           = Inl invalid_token"
proof -
  let ?text = "codec_enc c claims"
  let ?mac = "codec_mac c (Secret gen) ?text"
  show "generateToken (spec_jwt c t0) gen payload options = Inr (?text @ ''.'' @ ?mac)"
    using e t cl by (simp add: generateToken_def spec_jwt_def spec_sign_def Let_def)
  have s: "split_last_dot (?text @ ''.'' @ ?mac) = Some (?text, ?mac)"
    using m by (rule split_last_dot_framed)
  have x: "claims_expired now claims = (t0 + ttl < now)"
    unfolding cl by (rule issued_expired)
  show "now \<le> t0 + ttl \<Longrightarrow>
         verifyToken (spec_jwt c now) gen (?text @ ''.'' @ ?mac) opts = Inr claims"
    using s d x by (simp add: verifyToken_def spec_jwt_def spec_verify_def)
  show "t0 + ttl < now \<Longrightarrow>
         verifyToken (spec_jwt c now) gen (?text @ ''.'' @ ?mac) opts = Inl invalid_token"
    using s d x by (simp add: verifyToken_def spec_jwt_def spec_verify_def invalid_token_def)
  show "signature \<noteq> ?mac \<Longrightarrow> CHR ''.'' \<notin> set signature \<Longrightarrow>
         verifyToken (spec_jwt c now) gen (?text @ ''.'' @ signature) opts = Inl invalid_token"
    using d split_last_dot_framed [of signature ?text]
    by (simp add: verifyToken_def spec_jwt_def spec_verify_def invalid_token_def)
  show "codec_mac c secret' ?text \<noteq> ?mac \<Longrightarrow>
         verifyToken (spec_jwt c now) \<lparr>Secret = secret'\<rparr> (?text @ ''.'' @ ?mac) opts
           = Inl invalid_token"
    using s d by (auto simp add: verifyToken_def spec_jwt_def spec_verify_def invalid_token_def)
qed

text \<open>
  C8: for every token string, \<^verbatim>\<open>verifyToken\<close> over the token library of the
  specification either returns the decoded claims or fails with the \<^verbatim>\<open>ErrorWeb\<close>
  \<^verbatim>\<open>Token invalido o expirado\<close> of status 401. It returns the claims exactly when the
  token is well formed, its signature is the one of its text under the signing secret of
  the process, and the current time is not past the expiry it encodes; it fails exactly
  when the token is malformed, the signature does not match, or the current time is past
  the encoded expiry. Over any library at all, \<^verbatim>\<open>verifyToken\<close> returns what
  \<^verbatim>\<open>jwt.verify\<close> returns and throws no other error than that one, which the error
  handler answers with 401, as it does every failure of the bearer-token gate. A token
  issued by \<^verbatim>\<open>generateToken\<close> at the instant \<open>t0\<close> with the time span \<open>ttl\<close> carries the
  claims it was given; unmodified, it verifies to the issued claims at every instant up
  to \<open>t0 + ttl\<close> and fails after it; with any other signature, or under a secret that
  signs its text differently, it fails.
\<close>

theorem verifyToken_refuses_exactly:
  "(verifyToken (spec_jwt c now) gen token options = Inr claims
      \<longleftrightarrow> \<not> malformed c token \<and> signature_matches c (Secret gen) token
          \<and> \<not> past_expiry c now token \<and> claims = spec_decode c token)
   \<and> (verifyToken (spec_jwt c now) gen token options = Inl err
      \<longleftrightarrow> err = invalid_token
          \<and> (malformed c token \<or> \<not> signature_matches c (Secret gen) token
              \<or> past_expiry c now token))
   \<and> (verifyToken l gen token options = Inr claims
      \<longleftrightarrow> jwt_verify l token (Secret gen) options = Inr claims)
   \<and> (verifyToken l gen token options = Inl err \<longrightarrow> err = invalid_token)
   \<and> status (error_handler invalid_token) = 401
   \<and> (authJWT l gen req = Inl err' \<longrightarrow> status (error_handler err') = 401)
   \<and> (get_field (spread defaultOptions sign_options) ''expiresIn'' = JStr e
      \<and> codec_timespan c e = Some ttl
      \<and> issued = issued_claims t0 ttl (get_field (spread defaultOptions sign_options) ''issuer'')
                    payload
      \<and> codec_dec c (codec_enc c issued) = Some issued
      \<and> CHR ''.'' \<notin> set (codec_mac c (Secret gen) (codec_enc c issued))
     \<longrightarrow> generateToken (spec_jwt c t0) gen payload sign_options
           = Inr (codec_enc c issued @ ''.'' @ codec_mac c (Secret gen) (codec_enc c issued))
       \<and> (\<forall>k. k \<notin> {''iat'', ''exp'', ''iss''} \<longrightarrow> get_field issued k = get_field payload k)
       \<and> (now \<le> t0 + ttl
           \<longrightarrow> verifyToken (spec_jwt c now) gen
                 (codec_enc c issued @ ''.'' @ codec_mac c (Secret gen) (codec_enc c issued))
                 options
               = Inr issued)
       \<and> (t0 + ttl < now
           \<longrightarrow> verifyToken (spec_jwt c now) gen
                 (codec_enc c issued @ ''.'' @ codec_mac c (Secret gen) (codec_enc c issued))
                 options
               = Inl invalid_token)
       \<and> (signature \<noteq> codec_mac c (Secret gen) (codec_enc c issued)
            \<and> CHR ''.'' \<notin> set signature
           \<longrightarrow> verifyToken (spec_jwt c now) gen (codec_enc c issued @ ''.'' @ signature) options
               = Inl invalid_token)
       \<and> (codec_mac c secret' (codec_enc c issued)
              \<noteq> codec_mac c (Secret gen) (codec_enc c issued)
           \<longrightarrow> verifyToken (spec_jwt c now) \<lparr>Secret = secret'\<rparr>
                 (codec_enc c issued @ ''.'' @ codec_mac c (Secret gen) (codec_enc c issued))
                 options
               = Inl invalid_token))"
proof (intro conjI)
  show "verifyToken (spec_jwt c now) gen token options = Inr claims
      \<longleftrightarrow> \<not> malformed c token \<and> signature_matches c (Secret gen) token
          \<and> \<not> past_expiry c now token \<and> claims = spec_decode c token"
    by (rule verifyToken_spec_accepts)
  show "verifyToken (spec_jwt c now) gen token options = Inl err
      \<longleftrightarrow> err = invalid_token
          \<and> (malformed c token \<or> \<not> signature_matches c (Secret gen) token
              \<or> past_expiry c now token)"
    by (rule verifyToken_spec_refuses)
  show "verifyToken l gen token options = Inr claims
      \<longleftrightarrow> jwt_verify l token (Secret gen) options = Inr claims"
    by (auto simp: verifyToken_def split: sum.splits)
  show "verifyToken l gen token options = Inl err \<longrightarrow> err = invalid_token"
    by (simp add: verifyToken_Inl)
  show "status (error_handler invalid_token) = 401"
    by (simp add: invalid_token_def)
  show "authJWT l gen req = Inl err' \<longrightarrow> status (error_handler err') = 401"
    by (auto simp: verifyToken_def authJWT_def Let_def split: sum.splits if_splits)
  show "get_field (spread defaultOptions sign_options) ''expiresIn'' = JStr e
      \<and> codec_timespan c e = Some ttl
      \<and> issued = issued_claims t0 ttl (get_field (spread defaultOptions sign_options) ''issuer'')
                    payload
      \<and> codec_dec c (codec_enc c issued) = Some issued
      \<and> CHR ''.'' \<notin> set (codec_mac c (Secret gen) (codec_enc c issued))
     \<longrightarrow> generateToken (spec_jwt c t0) gen payload sign_options
           = Inr (codec_enc c issued @ ''.'' @ codec_mac c (Secret gen) (codec_enc c issued))
       \<and> (\<forall>k. k \<notin> {''iat'', ''exp'', ''iss''} \<longrightarrow> get_field issued k = get_field payload k)
       \<and> (now \<le> t0 + ttl
           \<longrightarrow> verifyToken (spec_jwt c now) gen
                 (codec_enc c issued @ ''.'' @ codec_mac c (Secret gen) (codec_enc c issued))
                 options
               = Inr issued)
       \<and> (t0 + ttl < now
           \<longrightarrow> verifyToken (spec_jwt c now) gen
                 (codec_enc c issued @ ''.'' @ codec_mac c (Secret gen) (codec_enc c issued))
                 options
               = Inl invalid_token)
       \<and> (signature \<noteq> codec_mac c (Secret gen) (codec_enc c issued)
            \<and> CHR ''.'' \<notin> set signature
           \<longrightarrow> verifyToken (spec_jwt c now) gen (codec_enc c issued @ ''.'' @ signature) options
               = Inl invalid_token)
       \<and> (codec_mac c secret' (codec_enc c issued)
              \<noteq> codec_mac c (Secret gen) (codec_enc c issued)
           \<longrightarrow> verifyToken (spec_jwt c now) \<lparr>Secret = secret'\<rparr>
                 (codec_enc c issued @ ''.'' @ codec_mac c (Secret gen) (codec_enc c issued))
                 options
               = Inl invalid_token)"
  proof (intro impI, elim conjE, intro conjI impI allI)
    assume e: "get_field (spread defaultOptions sign_options) ''expiresIn'' = JStr e"
      and t: "codec_timespan c e = Some ttl"
      and cl: "issued = issued_claims t0 ttl
                 (get_field (spread defaultOptions sign_options) ''issuer'') payload"
      and d: "codec_dec c (codec_enc c issued) = Some issued"
      and m: "CHR ''.'' \<notin> set (codec_mac c (Secret gen) (codec_enc c issued))"
    note itv = issue_then_verify [OF e t cl d m]
    show "generateToken (spec_jwt c t0) gen payload sign_options
           = Inr (codec_enc c issued @ ''.'' @ codec_mac c (Secret gen) (codec_enc c issued))"
      by (rule itv(1))
    show "get_field issued k = get_field payload k" if "k \<notin> {''iat'', ''exp'', ''iss''}" for k
      unfolding cl using that by (rule issued_keeps_payload)
    show "verifyToken (spec_jwt c now) gen
                 (codec_enc c issued @ ''.'' @ codec_mac c (Secret gen) (codec_enc c issued))
                 options
               = Inr issued" if "now \<le> t0 + ttl"
      using that by (rule itv(2))
    show "verifyToken (spec_jwt c now) gen
                 (codec_enc c issued @ ''.'' @ codec_mac c (Secret gen) (codec_enc c issued))
                 options
               = Inl invalid_token" if "t0 + ttl < now"
      using that by (rule itv(3))
    show "verifyToken (spec_jwt c now) gen (codec_enc c issued @ ''.'' @ signature) options
               = Inl invalid_token"
      if "signature \<noteq> codec_mac c (Secret gen) (codec_enc c issued) \<and> CHR ''.'' \<notin> set signature"
      using that itv(4) by blast
    show "verifyToken (spec_jwt c now) \<lparr>Secret = secret'\<rparr>
                 (codec_enc c issued @ ''.'' @ codec_mac c (Secret gen) (codec_enc c issued))
                 options
               = Inl invalid_token"
      if "codec_mac c secret' (codec_enc c issued) \<noteq> codec_mac c (Secret gen) (codec_enc c issued)"
      using that by (rule itv(5))
  qed
qed

theorem verifyToken_refuses_exactly_witness:
  "generateToken (spec_jwt demo_codec 1000) \<lparr>Secret = ''s3cr3t''\<rparr> (token_payload (users ! 1))
       (login_options None)
     = Inr ''sub=su2;role=seditor;username=sbob;iss=slaboratorio8-api;exp=n8200;iat=n1000;.46864''
   \<and> verifyToken (spec_jwt demo_codec 2000) \<lparr>Secret = ''s3cr3t''\<rparr>
       ''sub=su2;role=seditor;username=sbob;iss=slaboratorio8-api;exp=n8200;iat=n1000;.46864''
       JUndefined
     = Inr (JObj [(''sub'', JStr ''u2''), (''role'', JStr ''editor''),
                  (''username'', JStr ''bob''), (''iss'', JStr ''laboratorio8-api''),
                  (''exp'', JNum (Fin 8200)), (''iat'', JNum (Fin 1000))])
   \<and> verifyToken (spec_jwt demo_codec 9000) \<lparr>Secret = ''s3cr3t''\<rparr>
       ''sub=su2;role=seditor;username=sbob;iss=slaboratorio8-api;exp=n8200;iat=n1000;.46864''
       JUndefined
     = Inl (ErrorWeb ''Token invalido o expirado'' 401 (JObj []))
   \<and> verifyToken (spec_jwt demo_codec 2000) \<lparr>Secret = ''s3cr3t''\<rparr>
       ''sub=su2;role=seditor;username=sbob;iss=slaboratorio8-api;exp=n8200;iat=n1000;.46865''
       JUndefined
     = Inl (ErrorWeb ''Token invalido o expirado'' 401 (JObj []))
   \<and> verifyToken (spec_jwt demo_codec 2000) \<lparr>Secret = ''other''\<rparr>
       ''sub=su2;role=seditor;username=sbob;iss=slaboratorio8-api;exp=n8200;iat=n1000;.46864''
       JUndefined
     = Inl (ErrorWeb ''Token invalido o expirado'' 401 (JObj []))
   \<and> verifyToken (spec_jwt demo_codec 2000) \<lparr>Secret = ''s3cr3t''\<rparr> ''garbage'' JUndefined
     = Inl (ErrorWeb ''Token invalido o expirado'' 401 (JObj []))"
proof -
  let ?text = "''sub=su2;role=seditor;username=sbob;iss=slaboratorio8-api;exp=n8200;iat=n1000;''"
  have e: "get_field (spread defaultOptions (login_options None)) ''expiresIn'' = JStr ''2h''"
    by (simp add: defaultOptions_def login_options_def get_field_spread)
  have i: "get_field (spread defaultOptions (login_options None)) ''issuer''
      = JStr ''laboratorio8-api''"
    by (simp add: defaultOptions_def login_options_def get_field_spread)
      (simp add: get_field_def)
  have t: "codec_timespan demo_codec ''2h'' = Some 7200"
    by (simp add: demo_codec_def demo_timespan_def is_digit_def digits_value_def)
  have cl: "demo_issued = issued_claims 1000 7200
      (get_field (spread defaultOptions (login_options None)) ''issuer'')
      (token_payload (users ! 1))"
    unfolding i
    by (simp add: issued_claims_def token_payload_def users_def get_field_def spread_def
        AList.merge_def demo_issued_def)
  have enc: "codec_enc demo_codec demo_issued = ?text"
    by (simp add: demo_codec_def demo_enc_def demo_issued_def)
  have dec: "codec_dec demo_codec ?text = Some demo_issued"
    by code_simp
  have mac: "codec_mac demo_codec ''s3cr3t'' ?text = ''46864''"
    by (simp add: demo_codec_def demo_mac_def)
  have mac': "codec_mac demo_codec ''other'' ?text \<noteq> ''46864''"
    by (simp add: demo_codec_def demo_mac_def)
  have g: "malformed demo_codec ''garbage''"
    by (simp add: malformed_def split_last_dot_def)
  have h: "get_field (spread defaultOptions (login_options None)) ''expiresIn'' = JStr ''2h''
      \<and> codec_timespan demo_codec ''2h'' = Some 7200
      \<and> demo_issued = issued_claims 1000 7200
          (get_field (spread defaultOptions (login_options None)) ''issuer'')
          (token_payload (users ! 1))
      \<and> codec_dec demo_codec (codec_enc demo_codec demo_issued) = Some demo_issued
      \<and> CHR ''.'' \<notin> set (codec_mac demo_codec (Secret \<lparr>Secret = ''s3cr3t''\<rparr>)
            (codec_enc demo_codec demo_issued))"
    using e t cl by (simp add: enc dec mac)
  note a = verifyToken_refuses_exactly
    [of demo_codec 2000 "\<lparr>Secret = ''s3cr3t''\<rparr>" "''garbage''" JUndefined _ invalid_token _ _ _
       "login_options None" "''2h''" 7200 demo_issued 1000 "token_payload (users ! 1)"
       "''46865''" "''other''"]
  note b = verifyToken_refuses_exactly
    [of demo_codec 9000 "\<lparr>Secret = ''s3cr3t''\<rparr>" "''garbage''" JUndefined _ invalid_token _ _ _
       "login_options None" "''2h''" 7200 demo_issued 1000 "token_payload (users ! 1)"
       "''46865''" "''other''"]
  from a h have 1: "generateToken (spec_jwt demo_codec 1000) \<lparr>Secret = ''s3cr3t''\<rparr>
      (token_payload (users ! 1)) (login_options None) = Inr (?text @ ''.'' @ ''46864'')"
    by (simp add: enc mac)
  from a h have 2: "verifyToken (spec_jwt demo_codec 2000) \<lparr>Secret = ''s3cr3t''\<rparr>
      (?text @ ''.'' @ ''46864'') JUndefined = Inr demo_issued"
    by (simp add: enc mac)
  from b h have 3: "verifyToken (spec_jwt demo_codec 9000) \<lparr>Secret = ''s3cr3t''\<rparr>
      (?text @ ''.'' @ ''46864'') JUndefined = Inl invalid_token"
    by (simp add: enc mac)
  from a h have 4: "verifyToken (spec_jwt demo_codec 2000) \<lparr>Secret = ''s3cr3t''\<rparr>
      (?text @ ''.'' @ ''46865'') JUndefined = Inl invalid_token"
    by (simp add: enc mac)
  from a h mac' have 5: "verifyToken (spec_jwt demo_codec 2000) \<lparr>Secret = ''other''\<rparr>
      (?text @ ''.'' @ ''46864'') JUndefined = Inl invalid_token"
    by (simp add: enc mac)
  from a g have 6: "verifyToken (spec_jwt demo_codec 2000) \<lparr>Secret = ''s3cr3t''\<rparr> ''garbage''
      JUndefined = Inl invalid_token"
    by simp
  from 1 2 3 4 5 6 show ?thesis
    by (simp add: invalid_token_def demo_issued_def)
qed

section \<open>The gates of a route\<close>

lemma run_gates_append:
  "run_gates (gs1 @ gs2) req =
     (case run_gates gs1 req of Inl err \<Rightarrow> Inl err | Inr req1 \<Rightarrow> run_gates gs2 req1)"
  by (induction gs1 arbitrary: req) (auto split: sum.splits)

lemma run_gates_first_failure:
  "run_gates gs req = Inl err \<Longrightarrow>
     \<exists>gs1 g gs2 req1. gs = gs1 @ g # gs2 \<and> run_gates gs1 req = Inr req1 \<and> g req1 = Inl err"
proof (induction gs arbitrary: req)
  case Nil
  then show ?case by simp
next
  case (Cons g gs)
  show ?case
  proof (cases "g req")
    case (Inl e)
    with Cons.prems have "e = err" by simp
    with Inl have "g # gs = [] @ g # gs \<and> run_gates [] req = Inr req \<and> g req = Inl err" by simp
    then show ?thesis by blast
  next
    case (Inr r)
    with Cons.prems have "run_gates gs r = Inl err" by simp
    from Cons.IH [OF this] obtain gs1 g' gs2 req1 where
      h: "gs = gs1 @ g' # gs2" "run_gates gs1 r = Inr req1" "g' req1 = Inl err" by blast
    with Inr have "g # gs = (g # gs1) @ g' # gs2 \<and> run_gates (g # gs1) req = Inr req1
        \<and> g' req1 = Inl err" by simp
    then show ?thesis by blast
  qed
qed

lemma authJWT_bearer:
  assumes "authorization req = Some (''Bearer '' @ token)" and "token \<noteq> []"
    and "jwt_verify l token (Secret gen) JUndefined = Inr claims"
  shows "authJWT l gen req = Inr (req\<lparr>user := claims\<rparr>)"
  using assms by (simp add: authJWT_def starts_with_def verifyToken_def)

text \<open>
  C9: on a route with any list of gates, when the gates before one pass and that one fails,
  the answer is the error handler's response to its failure and the store is unchanged,
  whatever the later gates and the handler are; and a failure of the gates is always the
  failure of a first failing gate, which received the request as the gates before it left
  it. In particular \<^verbatim>\<open>DELETE /products/:id\<close> with a bearer token that verifies and whose
  role is \<^verbatim>\<open>editor\<close> is answered 403 and the store is unchanged.
\<close>

theorem gates_short_circuit:
  "(run_gates gs1 req = Inr req1 \<and> g req1 = Inl err
      \<longrightarrow> route (gs1 @ g # gs2) handler req s = (error_handler err, s))
   \<and> (run_gates gs req = Inl err
      \<longrightarrow> route gs handler req s = (error_handler err, s)
        \<and> (\<exists>gs1 g gs2 req1. gs = gs1 @ g # gs2 \<and> run_gates gs1 req = Inr req1 \<and> g req1 = Inl err))
   \<and> (authorization rq = Some (''Bearer '' @ token) \<and> token \<noteq> []
        \<and> jwt_verify (app_lib a) token (Secret (app_jwtGen a)) JUndefined = Inr claims
        \<and> get_field claims ''role'' = JStr ''editor''
      \<longrightarrow> route_delete a rq products
          = (\<lparr>status = 403, json = fail 403 ''ERROR'' ''Permisos insuficientes'' (JObj [])\<rparr>,
             products))"
proof (intro conjI impI)
  assume "run_gates gs1 req = Inr req1 \<and> g req1 = Inl err"
  then show "route (gs1 @ g # gs2) handler req s = (error_handler err, s)"
    by (simp add: route_def run_gates_append)
next
  assume "run_gates gs req = Inl err"
  then show "route gs handler req s = (error_handler err, s)"
    by (simp add: route_def)
next
  assume "run_gates gs req = Inl err"
  then show "\<exists>gs1 g gs2 req1. gs = gs1 @ g # gs2 \<and> run_gates gs1 req = Inr req1 \<and> g req1 = Inl err"
    by (rule run_gates_first_failure)
next
  assume h: "authorization rq = Some (''Bearer '' @ token) \<and> token \<noteq> []
        \<and> jwt_verify (app_lib a) token (Secret (app_jwtGen a)) JUndefined = Inr claims
        \<and> get_field claims ''role'' = JStr ''editor''"
  then have "authJWT (app_lib a) (app_jwtGen a) rq = Inr (rq\<lparr>user := claims\<rparr>)"
    by (simp add: authJWT_bearer)
  moreover have "roleCheck [''admin''] (rq\<lparr>user := claims\<rparr>)
      = Inl (ErrorWeb ''Permisos insuficientes'' 403 (JObj []))"
    using h by (simp add: roleCheck_def)
  ultimately show "route_delete a rq products
          = (\<lparr>status = 403, json = fail 403 ''ERROR'' ''Permisos insuficientes'' (JObj [])\<rparr>,
             products)"
    by (simp add: route_delete_def route_def)
qed

theorem gates_short_circuit_witness:
  "route_delete demo_app
       (empty_request\<lparr>authorization := Some ''Bearer token-bob'', param_id := ''p1''\<rparr>)
       (initial_products ''p1'')
     = (\<lparr>status = 403, json = fail 403 ''ERROR'' ''Permisos insuficientes'' (JObj [])\<rparr>,
        initial_products ''p1'')
   \<and> get_field (demo_claims (users ! 1)) ''role'' = JStr ''editor''
   \<and> fst (route_delete demo_app
       (empty_request\<lparr>authorization := Some ''Bearer token-alice'', param_id := ''p1''\<rparr>)
       (initial_products ''p1'')) = \<lparr>status = 204, json = NoBody\<rparr>"
proof -
  let ?rq = "empty_request\<lparr>authorization := Some ''Bearer token-bob'', param_id := ''p1''\<rparr>"
  have r: "get_field (demo_claims (users ! 1)) ''role'' = JStr ''editor''"
    by (simp add: demo_claims_def users_def token_payload_def get_field_def spread_def
        AList.merge_def)
  have pre: "authorization ?rq = Some (''Bearer '' @ ''token-bob'') \<and> ''token-bob'' \<noteq> []
        \<and> jwt_verify (app_lib demo_app) ''token-bob'' (Secret (app_jwtGen demo_app)) JUndefined
            = Inr (demo_claims (users ! 1))
        \<and> get_field (demo_claims (users ! 1)) ''role'' = JStr ''editor''"
    unfolding r by (simp add: empty_request_def demo_app_def demo_jwt_def)
  have adm: "fst (route_delete demo_app
       (empty_request\<lparr>authorization := Some ''Bearer token-alice'', param_id := ''p1''\<rparr>)
       (initial_products ''p1'')) = \<lparr>status = 204, json = NoBody\<rparr>"
    by (simp add: route_delete_def route_def authJWT_def starts_with_def verifyToken_def
        empty_request_def demo_app_def demo_jwt_def roleCheck_def demo_claims_def users_def
        token_payload_def get_field_def spread_def AList.merge_def delete_products_id_def
        initial_products_def has_id_def)
  from gates_short_circuit [of "[]" ?rq ?rq "\<lambda>r. Inl (OtherError [])" "OtherError []" "[]"
      "\<lambda>r s. (not_found, s)" "initial_products ''p1''" "[]" ?rq "''token-bob''" demo_app
      "demo_claims (users ! 1)" "initial_products ''p1''"] pre r adm
  show ?thesis by blast
qed

section \<open>Login\<close>

lemma requireApiKey_ok:
  "x_api_key req = Some (apiKey gen) \<Longrightarrow> requireApiKey gen req = Inr req"
  by (simp add: requireApiKey_def validateAPIKey_def)

lemma route_login_key:
  "x_api_key req = Some (apiKey (app_apiKeyGen a)) \<Longrightarrow>
   route_login a req s = (post_auth_login (app_lib a) (app_jwtGen a) (app_JWT_EXPIRES a) users req, s)"
  by (simp add: route_login_def route_def requireApiKey_ok)

lemma route_login_persist_key:
  "x_api_key req = Some (apiKey (app_apiKeyGen a)) \<Longrightarrow>
   route_login_persist a us req s
     = (post_auth_login_persist (app_lib a) (app_jwtGen a) (app_JWT_EXPIRES a) us req, s)"
  by (simp add: route_login_persist_def route_def requireApiKey_ok)

lemma issue_token_signed:
  "generateToken l gen (token_payload u) (login_options expires) = Inr token \<Longrightarrow>
   issue_token l gen expires u = token_response token"
  by (simp add: issue_token_def token_response_def)

lemma demo_user_match_truthy:
  assumes "List.find (credentials_match uname pw) users = Some u"
  shows "truthy uname \<and> truthy pw"
proof -
  from assms have "u \<in> set users \<and> credentials_match uname pw u"
    by (auto simp: find_Some_iff in_set_conv_nth)
  then have "(uname = JStr ''alice'' \<or> uname = JStr ''bob'')
      \<and> (pw = JStr ''alice123'' \<or> pw = JStr ''bob123'')"
    by (auto simp: users_def credentials_match_def get_field_def dest: strict_eq_imp_eq)
  then show ?thesis by auto
qed

lemma signed_token_decodes:
  assumes "sign_decode_contract l"
    and "generateToken l gen (token_payload u) options = Inr token"
  shows "get_field (decodeToken l token) ''sub'' = get_field u ''id''
       \<and> get_field (decodeToken l token) ''role'' = get_field u ''role''"
proof -
  from assms(2) obtain o' where s: "jwt_sign l (token_payload u) (Secret gen) o' = Inr token"
    by (auto simp: generateToken_def Let_def)
  have k: "''sub'' \<in> fst ` set (own_props (token_payload u))"
    "''role'' \<in> fst ` set (own_props (token_payload u))"
    by (simp_all add: token_payload_def)
  from assms(1) s k have "get_field (jwt_decode l token) ''sub'' = get_field (token_payload u) ''sub''
      \<and> get_field (jwt_decode l token) ''role'' = get_field (token_payload u) ''role''"
    unfolding sign_decode_contract_def by blast
  then show ?thesis
    by (simp add: decodeToken_def token_payload_def get_field_def)
qed

text \<open>
  C3, as the specification states it, fails on \<^verbatim>\<open>part_002\<close>: there the handler also
  requires a field \<^verbatim>\<open>secret\<close> in the body, so the credentials of a stored user without
  it are answered 400, while \<^verbatim>\<open>part_003\<close> answers them with a token.
\<close>

theorem login_without_secret_is_400:
  "List.find (credentials_match (JStr ''alice'') (JStr ''alice123'')) users = Some (users ! 0)
   \<and> status (fst (route_login_persist demo_app users
        (empty_request\<lparr>x_api_key := Some ''k3y'',
           body := JObj [(''username'', JStr ''alice''), (''password'', JStr ''alice123'')]\<rparr>)
        [])) = 400
   \<and> status (fst (route_login demo_app
        (empty_request\<lparr>x_api_key := Some ''k3y'',
           body := JObj [(''username'', JStr ''alice''), (''password'', JStr ''alice123'')]\<rparr>)
        [])) = 200"
  by (simp add: route_login_persist_def route_login_def route_def requireApiKey_def
      validateAPIKey_def demo_app_def empty_request_def post_auth_login_persist_def
      post_auth_login_def body_or_empty_def get_field_def users_def credentials_match_def
      issue_token_def generateToken_def demo_jwt_def token_payload_def Let_def)

text \<open>
  C3, amended: for a login request with the correct API key, in \<^verbatim>\<open>part_003\<close> and
  \<^verbatim>\<open>src/index.js\<close>: when the username and password of the body match a stored user and
  the library signs, the answer is 200 with the token signed over the id, role and
  username of the first such user, which decodes to that id and role (for a library whose
  tokens decode to what was signed); when both are present and match no stored user, 401
  without a token; when one of them is missing or empty, 400. In \<^verbatim>\<open>part_002\<close> the same
  holds for a body that also carries a non-empty \<^verbatim>\<open>secret\<close>, and a body without one is
  answered 400.
\<close>

theorem login_outcomes:
  assumes key: "x_api_key req = Some (apiKey (app_apiKeyGen a))"
  shows
   "(List.find (credentials_match (get_field (body_or_empty req) ''username'')
                                  (get_field (body_or_empty req) ''password'')) users = Some u
      \<and> generateToken (app_lib a) (app_jwtGen a) (token_payload u)
           (login_options (app_JWT_EXPIRES a)) = Inr token
     \<longrightarrow> route_login a req s = (token_response token, s)
       \<and> (sign_decode_contract (app_lib a)
           \<longrightarrow> get_field (decodeToken (app_lib a) token) ''sub'' = get_field u ''id''
             \<and> get_field (decodeToken (app_lib a) token) ''role'' = get_field u ''role''))
    \<and> (truthy (get_field (body_or_empty req) ''username'')
      \<and> truthy (get_field (body_or_empty req) ''password'')
      \<and> List.find (credentials_match (get_field (body_or_empty req) ''username'')
                                  (get_field (body_or_empty req) ''password'')) users = None
     \<longrightarrow> route_login a req s = (unauthorized, s))
    \<and> (\<not> truthy (get_field (body_or_empty req) ''username'')
          \<or> \<not> truthy (get_field (body_or_empty req) ''password'')
     \<longrightarrow> route_login a req s = (bad_request ''username and password required'', s))
    \<and> (truthy (get_field (body_or_empty req) ''username'')
      \<and> truthy (get_field (body_or_empty req) ''password'')
      \<and> truthy (get_field (body_or_empty req) ''secret'')
      \<and> List.find (credentials_match (get_field (body_or_empty req) ''username'')
                                  (get_field (body_or_empty req) ''password'')) us = Some u
      \<and> generateToken (app_lib a) (app_jwtGen a) (token_payload u)
           (login_options (app_JWT_EXPIRES a)) = Inr token
     \<longrightarrow> route_login_persist a us req s = (token_response token, s)
       \<and> (sign_decode_contract (app_lib a)
           \<longrightarrow> get_field (decodeToken (app_lib a) token) ''sub'' = get_field u ''id''
             \<and> get_field (decodeToken (app_lib a) token) ''role'' = get_field u ''role''))
    \<and> (truthy (get_field (body_or_empty req) ''username'')
      \<and> truthy (get_field (body_or_empty req) ''password'')
      \<and> truthy (get_field (body_or_empty req) ''secret'')
      \<and> List.find (credentials_match (get_field (body_or_empty req) ''username'')
                                  (get_field (body_or_empty req) ''password'')) us = None
     \<longrightarrow> route_login_persist a us req s = (unauthorized, s))
    \<and> (\<not> truthy (get_field (body_or_empty req) ''username'')
          \<or> \<not> truthy (get_field (body_or_empty req) ''password'')
          \<or> \<not> truthy (get_field (body_or_empty req) ''secret'')
     \<longrightarrow> route_login_persist a us req s
           = (bad_request ''username, password and secret required'', s))"
proof -
  let ?un = "get_field (body_or_empty req) ''username''"
  let ?pw = "get_field (body_or_empty req) ''password''"
  let ?se = "get_field (body_or_empty req) ''secret''"
  let ?l = "app_lib a" and ?g = "app_jwtGen a" and ?x = "app_JWT_EXPIRES a"
  have ok: "route_login a req s = (token_response token, s)"
    if "List.find (credentials_match ?un ?pw) users = Some u"
      and "generateToken ?l ?g (token_payload u) (login_options ?x) = Inr token"
  proof -
    from that(1) have "truthy ?un \<and> truthy ?pw" by (rule demo_user_match_truthy)
    with that show ?thesis
      by (simp add: route_login_key [OF key] post_auth_login_def Let_def issue_token_signed)
  qed
  have dec: "get_field (decodeToken ?l token) ''sub'' = get_field u ''id''
             \<and> get_field (decodeToken ?l token) ''role'' = get_field u ''role''"
    if "sign_decode_contract ?l"
      and "generateToken ?l ?g (token_payload u) (login_options ?x) = Inr token"
    using that by (rule signed_token_decodes)
  have un: "route_login a req s = (unauthorized, s)"
    if "truthy ?un \<and> truthy ?pw \<and> List.find (credentials_match ?un ?pw) users = None"
    using that
    by (simp add: route_login_key [OF key] post_auth_login_def Let_def unauthorized_def)
  have bad: "route_login a req s = (bad_request ''username and password required'', s)"
    if "\<not> truthy ?un \<or> \<not> truthy ?pw"
    using that
    by (auto simp add: route_login_key [OF key] post_auth_login_def Let_def bad_request_def)
  have okp: "route_login_persist a us req s = (token_response token, s)"
    if "truthy ?un \<and> truthy ?pw \<and> truthy ?se
      \<and> List.find (credentials_match ?un ?pw) us = Some u
      \<and> generateToken ?l ?g (token_payload u) (login_options ?x) = Inr token"
    using that
    by (simp add: route_login_persist_key [OF key] post_auth_login_persist_def Let_def
        issue_token_signed)
  have unp: "route_login_persist a us req s = (unauthorized, s)"
    if "truthy ?un \<and> truthy ?pw \<and> truthy ?se
      \<and> List.find (credentials_match ?un ?pw) us = None"
    using that
    by (simp add: route_login_persist_key [OF key] post_auth_login_persist_def Let_def
        unauthorized_def)
  have badp: "route_login_persist a us req s
           = (bad_request ''username, password and secret required'', s)"
    if "\<not> truthy ?un \<or> \<not> truthy ?pw \<or> \<not> truthy ?se"
    using that
    by (auto simp add: route_login_persist_key [OF key] post_auth_login_persist_def Let_def
        bad_request_def)
  from ok dec un bad okp unp badp show ?thesis by blast
qed

lemma demo_jwt_contract: "sign_decode_contract demo_jwt"
  unfolding sign_decode_contract_def
  by (auto simp: demo_jwt_def demo_claims_def users_def token_payload_def get_field_def
      spread_def AList.merge_def split: if_splits)

theorem login_outcomes_witness:
  "route_login demo_app
        (empty_request\<lparr>x_api_key := Some ''k3y'',
           body := JObj [(''username'', JStr ''bob''), (''password'', JStr ''bob123'')]\<rparr>) []
     = (token_response ''token-bob'', [])
   \<and> get_field (decodeToken demo_jwt ''token-bob'') ''sub'' = JStr ''u2''
   \<and> get_field (decodeToken demo_jwt ''token-bob'') ''role'' = JStr ''editor''"
proof -
  let ?req = "empty_request\<lparr>x_api_key := Some ''k3y'',
           body := JObj [(''username'', JStr ''bob''), (''password'', JStr ''bob123'')]\<rparr>"
  have key: "x_api_key ?req = Some (apiKey (app_apiKeyGen demo_app))"
    by (simp add: empty_request_def demo_app_def)
  have f: "List.find (credentials_match (get_field (body_or_empty ?req) ''username'')
                                  (get_field (body_or_empty ?req) ''password'')) users
           = Some (users ! 1)"
    by (simp add: body_or_empty_def empty_request_def get_field_def users_def
        credentials_match_def)
  have g: "generateToken (app_lib demo_app) (app_jwtGen demo_app) (token_payload (users ! 1))
           (login_options (app_JWT_EXPIRES demo_app)) = Inr ''token-bob''"
    by (simp add: generateToken_def demo_app_def demo_jwt_def users_def token_payload_def
        get_field_def)
  have c: "sign_decode_contract (app_lib demo_app)"
    by (simp add: demo_app_def demo_jwt_contract)
  have u: "get_field (users ! 1) ''id'' = JStr ''u2''" "get_field (users ! 1) ''role'' = JStr ''editor''"
    by (simp_all add: users_def get_field_def)
  have l: "app_lib demo_app = demo_jwt" by (simp add: demo_app_def)
  from login_outcomes [OF key, of "users ! 1" "''token-bob''" "[]" users] f g c
  show ?thesis unfolding u l by blast
qed

end
